theory Spec2Isabelle
  imports Main "HOL-Library.Multiset"
begin

section \<open>Python values, exceptions and the observable trace\<close>

text \<open>
  The three jobs of the repository (\<^verbatim>\<open>fed_interets.py\<close>,
  \<^verbatim>\<open>macroeconomics_data_fetcher.py\<close>, \<^verbatim>\<open>nifty50_history_data_fetcher.py\<close>) are
  embedded as functions of a \<open>world\<close>: the answers of the external collaborators
  (HTTP API, yfinance, the clock, S3). Each function returns the trace of the external
  calls it made together with either the exception it raised (\<open>Inl\<close>) or its return
  value (\<open>Inr\<close>).

  A Python \<^verbatim>\<open>str\<close> is represented by its UTF-8 encoding, a \<open>string\<close> of bytes: a
  code point is one byte below 128, or a byte from 192 up followed by bytes from 128 to
  191. Concatenation, equality, the substring test and the replacement of a non-empty
  pattern act on the encoding as they act on the \<^verbatim>\<open>str\<close>; the space is the byte 32
  and occurs in no other code point. What depends on the Unicode database,
  \<^verbatim>\<open>str.upper\<close> and \<^verbatim>\<open>str.lower\<close>, is taken from the world.

  \<open>pyval\<close> is a decoded JSON document or a DataFrame cell. Numbers are opaque to the
  three jobs (no arithmetic is done on them), so \<open>PNum\<close> carries an integer tag.
  A \<open>PDict\<close> lists its items in insertion order; its keys are distinct, as in Python.
\<close>

datatype pyval =
    PNone
  | PNaN
  | PBool bool
  | PNum int
  | PStr string
  | PList "pyval list"
  | PDict "(string \<times> pyval) list"

text \<open>
  The exceptions the jobs meet, all of them subclasses of \<^verbatim>\<open>Exception\<close>;
  \<open>OtherError\<close> stands for any other exception a collaborator raises.
\<close>

datatype exn =
    RequestException
  | ValueError string
  | KeyError string
  | TypeError
  | AttributeError
  | OtherError string

text \<open>Python truthiness, as tested by \<^verbatim>\<open>if not x\<close>.\<close>

fun truthy :: "pyval \<Rightarrow> bool" where
  "truthy PNone = False"
| "truthy PNaN = True"
| "truthy (PBool b) = b"
| "truthy (PNum n) = (n \<noteq> 0)"
| "truthy (PStr s) = (s \<noteq> [])"
| "truthy (PList xs) = (xs \<noteq> [])"
| "truthy (PDict kvs) = (kvs \<noteq> [])"

text \<open>\<^verbatim>\<open>d.get(k, default)\<close>: only a dict has the method.\<close>

fun dict_get :: "pyval \<Rightarrow> string \<Rightarrow> pyval \<Rightarrow> exn + pyval" where
  "dict_get (PDict kvs) k dflt = Inr (case map_of kvs k of Some v \<Rightarrow> v | None \<Rightarrow> dflt)"
| "dict_get _ k dflt = Inl AttributeError"

text \<open>\<^verbatim>\<open>sub in s\<close> on strings, and \<^verbatim>\<open>s.replace(old, new)\<close>.\<close>

fun contains_str :: "string \<Rightarrow> string \<Rightarrow> bool" where
  "contains_str sub [] = (sub = [])"
| "contains_str sub (c # cs) = (take (length sub) (c # cs) = sub \<or> contains_str sub cs)"

function replace_from :: "string \<Rightarrow> string \<Rightarrow> string \<Rightarrow> string" where
  "replace_from old new [] = []"
| "replace_from old new (c # cs) =
     (if old \<noteq> [] \<and> take (length old) (c # cs) = old
      then new @ replace_from old new (drop (length old) (c # cs))
      else c # replace_from old new cs)"
  by pat_completeness auto
termination
  by (relation "measure (\<lambda>(old, new, s). length s)") auto

text \<open>The code points of a \<^verbatim>\<open>str\<close>: each leading byte with the continuation bytes
  that follow it.\<close>

definition is_continuation :: "char \<Rightarrow> bool" where
  "is_continuation c = (128 \<le> (of_char c :: nat) \<and> (of_char c :: nat) < 192)"

function code_points :: "string \<Rightarrow> string list" where
  "code_points [] = []"
| "code_points (c # cs) =
     (c # takeWhile is_continuation cs) # code_points (dropWhile is_continuation cs)"
  by pat_completeness auto
termination
  by (relation "measure length") (auto simp: length_dropWhile_le less_Suc_eq_le)

text \<open>With an empty pattern \<^verbatim>\<open>replace\<close> puts \<open>new\<close> before every code point and
  at the end.\<close>

definition str_replace :: "string \<Rightarrow> string \<Rightarrow> string \<Rightarrow> string" where
  "str_replace old new s =
     (if old = [] then new @ concat (map (\<lambda>cp. cp @ new) (code_points s))
      else replace_from old new s)"

text \<open>
  \<^verbatim>\<open>x in c\<close> with a string \<open>x\<close>: key membership in a dict, element membership in a
  list, substring test in a string, TypeError on anything else.
\<close>

fun py_contains :: "pyval \<Rightarrow> string \<Rightarrow> exn + bool" where
  "py_contains (PDict kvs) k = Inr (k \<in> set (map fst kvs))"
| "py_contains (PList xs) k = Inr (PStr k \<in> set xs)"
| "py_contains (PStr s) k = Inr (contains_str k s)"
| "py_contains _ k = Inl TypeError"

text \<open>\<^verbatim>\<open>c[k]\<close> with a string \<open>k\<close>.\<close>

fun py_getitem :: "pyval \<Rightarrow> string \<Rightarrow> exn + pyval" where
  "py_getitem (PDict kvs) k = (case map_of kvs k of Some v \<Rightarrow> Inr v | None \<Rightarrow> Inl (KeyError k))"
| "py_getitem _ k = Inl TypeError"

subsection \<open>DataFrames\<close>

text \<open>
  A pandas DataFrame: the name of its index, its column labels, and its rows, each a
  pair of the row's index label and its cells (one per column).
\<close>

record dataframe =
  index_name :: "string option"
  columns :: "string list"
  rows :: "(pyval \<times> pyval list) list"

text \<open>\<^verbatim>\<open>pd.DataFrame()\<close> and \<^verbatim>\<open>df.empty\<close> (true when either axis has length 0).\<close>

definition DataFrame_empty :: dataframe where
  "DataFrame_empty = \<lparr>index_name = None, columns = [], rows = []\<rparr>"

definition df_empty :: "dataframe \<Rightarrow> bool" where
  "df_empty df = (rows df = [] \<or> columns df = [])"

text \<open>
  \<^verbatim>\<open>to_csv(index=False)\<close>: the header and the cells of every row, without the
  index. The byte encoding is outside the model.
\<close>

type_synonym csv = "string list \<times> pyval list list"

definition to_csv :: "dataframe \<Rightarrow> csv" where
  "to_csv df = (columns df, map snd (rows df))"

subsection \<open>Calendar dates and the clock\<close>

record date =
  year :: nat
  month :: nat
  day :: nat

text \<open>
  One reading of the clock. \<^verbatim>\<open>datetime.today()\<close> is the naive local time of the
  process; the UTC date of the same instant is kept beside it.
\<close>

record reading =
  local_date :: date
  utc_date :: date

definition digit :: "nat \<Rightarrow> char" where
  "digit n = ''0123456789'' ! (n mod 10)"

text \<open>\<^verbatim>\<open>strftime\<close> with \<^verbatim>\<open>%Y\<close> (four digits for the years 1000 to 9999), \<^verbatim>\<open>%m\<close>
  and \<^verbatim>\<open>%d\<close> (two digits, zero padded).\<close>

definition strftime_Y :: "date \<Rightarrow> string" where
  "strftime_Y d = [digit (year d div 1000), digit (year d div 100), digit (year d div 10), digit (year d)]"

definition strftime_m :: "date \<Rightarrow> string" where
  "strftime_m d = [digit (month d div 10), digit (month d)]"

definition strftime_d :: "date \<Rightarrow> string" where
  "strftime_d d = [digit (day d div 10), digit (day d)]"

subsection \<open>The world and the trace\<close>

text \<open>
  \<open>http\<close> is \<^verbatim>\<open>requests.get\<close> followed by \<^verbatim>\<open>raise_for_status()\<close> and
  \<^verbatim>\<open>json()\<close>; \<open>ticker_history\<close> and \<open>ticker_info\<close> are yfinance's
  \<^verbatim>\<open>Ticker(t).history(start, end)\<close> and \<^verbatim>\<open>Ticker(t).info\<close>; \<open>today k\<close> is the
  \<open>k\<close>-th call of \<^verbatim>\<open>datetime.today()\<close> made by an upload; \<open>s3_fault\<close> is the
  exception \<^verbatim>\<open>upload_fileobj\<close> raises, if any; \<open>frame_of\<close> is
  \<^verbatim>\<open>pd.DataFrame(x)\<close> on an input that is not a list of dicts; \<open>stock_names_file\<close>
  is the decoded \<^verbatim>\<open>nifty50_stock_names.json\<close>; \<open>json_loads\<close> decodes the
  \<^verbatim>\<open>INDICATORS\<close> variable, a JSON object of indicator names and indicator ids
  (strings), in the order of the object; \<open>start_date\<close> and \<open>end_date\<close> are the
  two strings the stock module computes when it is imported; \<open>finish_time i\<close> is the
  instant at which the \<open>i\<close>-th submitted future completes; \<open>str_upper\<close> and
  \<open>str_lower\<close> are Python's \<^verbatim>\<open>str.upper\<close> and \<^verbatim>\<open>str.lower\<close> (and the
  \<^verbatim>\<open>.str.lower()\<close> of pandas, which applies the latter to each label), which follow
  the Unicode database.
\<close>

record world =
  environ :: "string \<Rightarrow> string option"
  http :: "string \<Rightarrow> exn + pyval"
  ticker_history :: "string \<Rightarrow> string \<Rightarrow> string \<Rightarrow> exn + dataframe"
  ticker_info :: "string \<Rightarrow> exn + pyval"
  today :: "nat \<Rightarrow> reading"
  s3_fault :: "exn option"
  frame_of :: "pyval \<Rightarrow> exn + dataframe"
  json_loads :: "string \<Rightarrow> exn + (string \<times> string) list"
  stock_names_file :: "exn + pyval"
  start_date :: string
  end_date :: string
  finish_time :: "nat \<Rightarrow> nat"
  str_upper :: "string \<Rightarrow> string"
  str_lower :: "string \<Rightarrow> string"

text \<open>
  The trace records the calls to the collaborators with the arguments the source passes
  (the timeout is \<open>None\<close> where the source passes none), every entry into an
  \<^verbatim>\<open>s3_upload\<close>, every \<^verbatim>\<open>upload_fileobj\<close> (bucket, key, body, content type) and
  every \<^verbatim>\<open>logger.warning\<close>. \<^verbatim>\<open>logger.info\<close> and \<^verbatim>\<open>logger.error\<close> are left out.
\<close>

datatype event =
    HttpGet string "nat option"
  | YfHistory string string string "nat option"
  | YfInfo string
  | UploadCalled
  | PutObject string string csv string
  | Warning string

type_synonym 'a run = "event list \<times> (exn + 'a)"

definition ret :: "'a \<Rightarrow> 'a run" where
  "ret x = ([], Inr x)"

definition raise :: "exn \<Rightarrow> 'a run" where
  "raise e = ([], Inl e)"

definition emit :: "event \<Rightarrow> unit run" where
  "emit ev = ([ev], Inr ())"

definition lift :: "exn + 'a \<Rightarrow> 'a run" where
  "lift r = ([], r)"

text \<open>Sequencing: an exception ends the run, keeping the trace so far.\<close>

definition then_run :: "'a run \<Rightarrow> ('a \<Rightarrow> 'b run) \<Rightarrow> 'b run" where
  "then_run m f =
     (case m of
        (tr, Inl e) \<Rightarrow> (tr, Inl e)
      | (tr, Inr x) \<Rightarrow> (case f x of (tr', r) \<Rightarrow> (tr @ tr', r)))"

section \<open>The partition key\<close>

text \<open>
  Each \<^verbatim>\<open>s3_upload\<close> builds its key with one f-string that calls
  \<^verbatim>\<open>datetime.today()\<close> three times, once per field:
  \<^verbatim>\<open>f"P/year={datetime.today().strftime('%Y')}/month={datetime.today().strftime('%m')}/day={datetime.today().strftime('%d')}/F"\<close>.
  \<open>r1\<close>, \<open>r2\<close>, \<open>r3\<close> are the three readings, in the order of the calls.
\<close>

definition s3_key :: "string \<Rightarrow> string \<Rightarrow> reading \<Rightarrow> reading \<Rightarrow> reading \<Rightarrow> string" where
  "s3_key prefix filename r1 r2 r3 =
     prefix @ ''/year='' @ strftime_Y (local_date r1)
            @ ''/month='' @ strftime_m (local_date r2)
            @ ''/day='' @ strftime_d (local_date r3)
            @ ''/'' @ filename"

text \<open>The upload proper: \<^verbatim>\<open>s3.upload_fileobj(csv_buffer, bucket_name, key, ExtraArgs=...)\<close>.\<close>

definition upload_fileobj :: "world \<Rightarrow> string \<Rightarrow> string \<Rightarrow> csv \<Rightarrow> unit run" where
  "upload_fileobj w bucket key body =
     then_run (emit (PutObject bucket key body ''text/csv''))
       (\<lambda>_. case s3_fault w of Some e \<Rightarrow> raise e | None \<Rightarrow> ret ())"

section \<open>The interest-rate job (\<^verbatim>\<open>fed_interets.py\<close>)\<close>

definition fed_s3_upload :: "world \<Rightarrow> dataframe \<Rightarrow> unit run" where
  "fed_s3_upload w data_frame =
     then_run (emit UploadCalled) (\<lambda>_.
       if df_empty data_frame
       then emit (Warning ''No data to upload. DataFrame is empty.'')
       else upload_fileobj w ''nifty50-raw-layer''
              (s3_key ''us_fed_rates'' ''us_fed_rates.csv'' (today w 0) (today w 1) (today w 2))
              (to_csv data_frame))"

text \<open>
  \<^verbatim>\<open>pd.DataFrame(observations)\<close>. On a list of dicts the columns are the keys in
  the order of their first appearance, a record without a key gets NaN there, and the
  rows are labelled 0, 1, ...; any other input is left to the world.
\<close>

fun is_dict :: "pyval \<Rightarrow> bool" where
  "is_dict (PDict kvs) = True"
| "is_dict _ = False"

fun items :: "pyval \<Rightarrow> (string \<times> pyval) list" where
  "items (PDict kvs) = kvs"
| "items _ = []"

definition first_seen :: "string list \<Rightarrow> string list" where
  "first_seen ks = foldl (\<lambda>acc k. if k \<in> set acc then acc else acc @ [k]) [] ks"

definition union_keys :: "pyval list \<Rightarrow> string list" where
  "union_keys recs = first_seen (concat (map (\<lambda>r. map fst (items r)) recs))"

definition record_cells :: "string list \<Rightarrow> pyval \<Rightarrow> pyval list" where
  "record_cells cols r = map (\<lambda>c. case map_of (items r) c of Some v \<Rightarrow> v | None \<Rightarrow> PNaN) cols"

definition range_index :: "pyval list list \<Rightarrow> (pyval \<times> pyval list) list" where
  "range_index cells = zip (map (\<lambda>i. PNum (int i)) [0..<length cells]) cells"

definition DataFrame_of :: "world \<Rightarrow> pyval \<Rightarrow> exn + dataframe" where
  "DataFrame_of w x =
     (case x of
        PList recs \<Rightarrow>
          if recs \<noteq> [] \<and> list_all is_dict recs
          then Inr \<lparr>index_name = None, columns = union_keys recs,
                    rows = range_index (map (record_cells (union_keys recs)) recs)\<rparr>
          else frame_of w x
      | _ \<Rightarrow> frame_of w x)"

text \<open>
  \<^verbatim>\<open>lambda_handler\<close>. A missing environment variable raises KeyError, which none of
  the handlers of the first \<^verbatim>\<open>try\<close> catches; every \<^verbatim>\<open>except\<close> clause logs and
  re-raises, so each exception ends the run unchanged.
\<close>

definition getenv :: "world \<Rightarrow> string \<Rightarrow> string run" where
  "getenv w k = (case environ w k of Some v \<Rightarrow> ret v | None \<Rightarrow> raise (KeyError k))"

definition requests_get :: "world \<Rightarrow> string \<Rightarrow> pyval run" where
  "requests_get w url = then_run (emit (HttpGet url (Some 10))) (\<lambda>_. lift (http w url))"

text \<open>The first \<^verbatim>\<open>try\<close> block: the single fetch of this job.\<close>

definition fed_fetch :: "world \<Rightarrow> pyval run" where
  "fed_fetch w =
     then_run (getenv w ''API_KEY'') (\<lambda>api_key.
     then_run (getenv w ''URL'') (\<lambda>url_template.
       requests_get w (str_replace ''{API_KEY}'' api_key url_template)))"

definition fed_lambda_handler :: "world \<Rightarrow> pyval run" where
  "fed_lambda_handler w =
     then_run (fed_fetch w) (\<lambda>data.
     then_run (lift (dict_get data ''observations'' (PList []))) (\<lambda>observations.
       if \<not> truthy observations
       then then_run (emit (Warning ''No observations found in API response.'')) (\<lambda>_. ret PNone)
       else then_run (lift (DataFrame_of w observations)) (\<lambda>df.
            then_run (fed_s3_upload w df) (\<lambda>_. ret PNone))))"

section \<open>The macro-indicator job (\<^verbatim>\<open>macroeconomics_data_fetcher.py\<close>)\<close>

text \<open>This \<^verbatim>\<open>s3_upload\<close> has no test of \<^verbatim>\<open>data_frame.empty\<close>.\<close>

definition macro_s3_upload :: "world \<Rightarrow> dataframe \<Rightarrow> unit run" where
  "macro_s3_upload w data_frame =
     then_run (emit UploadCalled) (\<lambda>_.
       upload_fileobj w ''nifty50-raw-layer''
         (s3_key ''macroeconimics'' ''macroeconomic_metrics.csv'' (today w 0) (today w 1) (today w 2))
         (to_csv data_frame))"

text \<open>
  \<^verbatim>\<open>pd.DataFrame({"indicator_name": n, "year": d.keys(), "value": d.values()})\<close>:
  one row per item of \<open>d\<close>, the name broadcast; no row when \<open>d\<close> is empty.
\<close>

definition indicator_frame :: "string \<Rightarrow> (string \<times> pyval) list \<Rightarrow> dataframe" where
  "indicator_frame indicator_name kvs =
     \<lparr>index_name = None,
      columns = [''indicator_name'', ''year'', ''value''],
      rows = range_index (map (\<lambda>(k, v). [PStr indicator_name, PStr k, v]) kvs)\<rparr>"

text \<open>\<^verbatim>\<open>values_dict.keys()\<close>: only a dict has the method.\<close>

fun dict_items :: "pyval \<Rightarrow> exn + (string \<times> pyval) list" where
  "dict_items (PDict kvs) = Inr kvs"
| "dict_items _ = Inl AttributeError"

text \<open>
  The body of the loop for one indicator (lines 37 to 66). The three tests of line 51
  are evaluated left to right; lines 54 to 56 repeat them after they have passed and
  cannot fire, so they are not repeated here.
\<close>

definition fetch_indicator :: "world \<Rightarrow> string \<Rightarrow> string \<Rightarrow> string \<Rightarrow> string \<Rightarrow> dataframe run" where
  "fetch_indicator w base_url country_code indicator_name indicator_id =
     then_run (requests_get w (base_url @ indicator_id @ ''/'' @ country_code)) (\<lambda>data.
     then_run (lift (dict_get data ''values'' PNone)) (\<lambda>vals.
       if \<not> is_dict vals \<or> indicator_id \<notin> set (map fst (items vals))
       then raise (KeyError (''Missing or malformed data for '' @ indicator_name))
       else
         then_run (lift (py_getitem vals indicator_id)) (\<lambda>by_country.
         then_run (lift (py_contains by_country country_code)) (\<lambda>present.
           if \<not> present
           then raise (KeyError (''Missing or malformed data for '' @ indicator_name))
           else
             then_run (lift (py_getitem by_country country_code)) (\<lambda>values_dict.
             then_run (lift (dict_items values_dict)) (\<lambda>kvs.
               ret (indicator_frame indicator_name kvs)))))))"

text \<open>The \<^verbatim>\<open>for\<close> loop over \<^verbatim>\<open>indicators.items()\<close>, with \<open>all_data\<close> as accumulator.\<close>

fun fetch_indicators ::
  "world \<Rightarrow> string \<Rightarrow> string \<Rightarrow> (string \<times> string) list \<Rightarrow> dataframe list \<Rightarrow> dataframe list run" where
  "fetch_indicators w base_url country_code [] all_data = ret all_data"
| "fetch_indicators w base_url country_code ((indicator_name, indicator_id) # rest) all_data =
     then_run (fetch_indicator w base_url country_code indicator_name indicator_id) (\<lambda>df.
       fetch_indicators w base_url country_code rest (all_data @ [df]))"

text \<open>
  \<^verbatim>\<open>pd.concat(frames)\<close> along the rows: the columns are the union of the frames'
  columns in the order of their first appearance, a frame without a column gets NaN
  there; the index keeps its name when all frames agree on it, and is renumbered with
  \<^verbatim>\<open>ignore_index=True\<close>.
\<close>

definition reproject :: "string list \<Rightarrow> dataframe \<Rightarrow> (pyval \<times> pyval list) list" where
  "reproject cols df =
     map (\<lambda>(l, cells). (l, map (\<lambda>c. case map_of (zip (columns df) cells) c of
                                       Some v \<Rightarrow> v | None \<Rightarrow> PNaN) cols))
         (rows df)"

definition common_name :: "dataframe list \<Rightarrow> string option" where
  "common_name dfs =
     (case dfs of [] \<Rightarrow> None
      | df # rest \<Rightarrow> if list_all (\<lambda>d. index_name d = index_name df) rest then index_name df else None)"

definition pd_concat :: "bool \<Rightarrow> dataframe list \<Rightarrow> exn + dataframe" where
  "pd_concat ignore_index dfs =
     (if dfs = [] then Inl (ValueError ''No objects to concatenate'')
      else
        let cols = first_seen (concat (map columns dfs));
            body = concat (map (reproject cols) dfs)
        in Inr \<lparr>index_name = (if ignore_index then None else common_name dfs),
                columns = cols,
                rows = (if ignore_index then range_index (map snd body) else body)\<rparr>)"

text \<open>Lines 31 to 34: the configuration, and the test that it names an indicator.\<close>

definition macro_config :: "world \<Rightarrow> (string \<times> string \<times> (string \<times> string) list) run" where
  "macro_config w =
     then_run (getenv w ''COUNTRY_CODE'') (\<lambda>country_code.
     then_run (getenv w ''BASE_URL'') (\<lambda>base_url.
     then_run (getenv w ''INDICATORS'') (\<lambda>text.
     then_run (lift (json_loads w text)) (\<lambda>indicators.
       if indicators = []
       then raise (ValueError ''INDICATORS is empty in environment variables'')
       else ret (country_code, base_url, indicators)))))"

definition macro_lambda_handler :: "world \<Rightarrow> pyval run" where
  "macro_lambda_handler w =
     then_run (macro_config w) (\<lambda>(country_code, base_url, indicators).
     then_run (fetch_indicators w base_url country_code indicators []) (\<lambda>all_data.
       if all_data \<noteq> []
       then then_run (lift (pd_concat True all_data)) (\<lambda>combined_df.
            then_run (macro_s3_upload w combined_df) (\<lambda>_. ret PNone))
       else then_run (emit (Warning ''No data fetched for any indicator'')) (\<lambda>_.
            raise (ValueError ''No data fetched for any indicator''))))"

section \<open>The stock-history job (\<^verbatim>\<open>nifty50_history_data_fetcher.py\<close>)\<close>

text \<open>
  What \<^verbatim>\<open>str.upper\<close> and \<^verbatim>\<open>str.lower\<close> do to a \<^verbatim>\<open>str\<close> of ASCII characters
  only: the 26 letters change case and every other character is kept. On any other
  \<^verbatim>\<open>str\<close> the two functions below are not Python's.
\<close>

definition lower_letters :: string where
  "lower_letters = ''abcdefghijklmnopqrstuvwxyz''"

definition upper_letters :: string where
  "upper_letters = ''ABCDEFGHIJKLMNOPQRSTUVWXYZ''"

definition ascii_upper :: "string \<Rightarrow> string" where
  "ascii_upper s =
     map (\<lambda>c. case map_of (zip lower_letters upper_letters) c of Some u \<Rightarrow> u | None \<Rightarrow> c) s"

definition ascii_lower :: "string \<Rightarrow> string" where
  "ascii_lower s =
     map (\<lambda>c. case map_of (zip upper_letters lower_letters) c of Some l \<Rightarrow> l | None \<Rightarrow> c) s"

text \<open>
  \<^verbatim>\<open>data[key] = value\<close>: a scalar is broadcast to every row, a list must have one
  element per row, a dict is aligned on the row labels. The column is replaced when the
  frame has it already and appended otherwise.
\<close>

definition column_values :: "dataframe \<Rightarrow> pyval \<Rightarrow> exn + pyval list" where
  "column_values df v =
     (case v of
        PList vs \<Rightarrow>
          if length vs = length (rows df) then Inr vs
          else Inl (ValueError ''Length of values does not match length of index'')
      | PDict kvs \<Rightarrow>
          Inr (map (\<lambda>(l, cells). case l of
                       PStr k \<Rightarrow> (case map_of kvs k of Some x \<Rightarrow> x | None \<Rightarrow> PNaN)
                     | _ \<Rightarrow> PNaN) (rows df))
      | _ \<Rightarrow> Inr (replicate (length (rows df)) v))"

definition index_of :: "string \<Rightarrow> string list \<Rightarrow> nat" where
  "index_of k cols = length (takeWhile (\<lambda>c. c \<noteq> k) cols)"

definition set_column :: "dataframe \<Rightarrow> string \<Rightarrow> pyval \<Rightarrow> exn + dataframe" where
  "set_column df key v =
     (case column_values df v of
        Inl e \<Rightarrow> Inl e
      | Inr vs \<Rightarrow>
          Inr (if key \<in> set (columns df)
               then df\<lparr>rows := map (\<lambda>((l, cells), x). (l, cells[index_of key (columns df) := x]))
                                   (zip (rows df) vs)\<rparr>
               else df\<lparr>columns := columns df @ [key],
                       rows := map (\<lambda>((l, cells), x). (l, cells @ [x])) (zip (rows df) vs)\<rparr>))"

text \<open>\<^verbatim>\<open>for key, value in metadata.items(): data[key] = value\<close>.\<close>

fun set_columns :: "dataframe \<Rightarrow> (string \<times> pyval) list \<Rightarrow> exn + dataframe" where
  "set_columns df [] = Inr df"
| "set_columns df ((key, v) # rest) =
     (case set_column df key v of Inl e \<Rightarrow> Inl e | Inr df' \<Rightarrow> set_columns df' rest)"

text \<open>
  The \<^verbatim>\<open>metadata\<close> dict of lines 33 to 51. \<^verbatim>\<open>stock_info.get(k)\<close> is \<open>None\<close> for an
  absent key.
\<close>

definition info_get :: "(string \<times> pyval) list \<Rightarrow> string \<Rightarrow> pyval" where
  "info_get kvs k = (case map_of kvs k of Some v \<Rightarrow> v | None \<Rightarrow> PNone)"

definition metadata :: "string \<Rightarrow> (string \<times> pyval) list \<Rightarrow> (string \<times> pyval) list" where
  "metadata stock_name stock_info =
     [(''stock_name'', PStr stock_name),
      (''market_cap'', info_get stock_info ''marketCap''),
      (''beta'', info_get stock_info ''beta''),
      (''pe_ratio'', info_get stock_info ''trailingPE''),
      (''dividend_yield'', info_get stock_info ''dividendYield''),
      (''roe'', info_get stock_info ''returnOnEquity''),
      (''roce'', info_get stock_info ''returnOnCapitalEmployed''),
      (''debt_to_equity'', info_get stock_info ''debtToEquity''),
      (''interest_coverage'', info_get stock_info ''interestCoverage''),
      (''pledged_percentage'', info_get stock_info ''pledgeRatio''),
      (''book_value'', info_get stock_info ''bookValue''),
      (''price_to_book'', info_get stock_info ''priceToBook''),
      (''price_to_earnings'', info_get stock_info ''trailingPE''),
      (''forward_pe'', info_get stock_info ''forwardPE''),
      (''enterprise_value'', info_get stock_info ''enterpriseValue''),
      (''ev_to_revenue'', info_get stock_info ''enterpriseToRevenue''),
      (''ev_to_ebitda'', info_get stock_info ''enterpriseToEbitda'')]"

text \<open>
  The \<^verbatim>\<open>try\<close> block of \<^verbatim>\<open>fetch_stock_price\<close>. A \<open>stock_name\<close> that is not a string
  has no \<^verbatim>\<open>upper\<close>; an info that is truthy but not a dict has no \<^verbatim>\<open>get\<close>. The
  source reads \<^verbatim>\<open>stock.info\<close> twice in one expression; the two reads give the same
  value and are recorded once.
\<close>

definition fetch_stock_price_try :: "world \<Rightarrow> pyval \<Rightarrow> dataframe run" where
  "fetch_stock_price_try w stock_name =
     (case stock_name of
        PStr name \<Rightarrow>
          let ticker = str_upper w name @ ''.NS'' in
          then_run (emit (YfHistory ticker (start_date w) (end_date w) None)) (\<lambda>_.
          then_run (lift (ticker_history w ticker (start_date w) (end_date w))) (\<lambda>data.
          then_run (emit (YfInfo ticker)) (\<lambda>_.
          then_run (lift (ticker_info w ticker)) (\<lambda>info.
            let stock_info = (if truthy info then info else PDict []) in
            if \<not> truthy stock_info
            then then_run (emit (Warning (''No stock info found for '' @ name))) (\<lambda>_.
                 ret DataFrame_empty)
            else
              then_run (lift (dict_items stock_info)) (\<lambda>kvs.
                if \<not> df_empty data
                then lift (set_columns data (metadata name kvs))
                else ret data)))))
      | _ \<Rightarrow> raise AttributeError)"

text \<open>\<^verbatim>\<open>except Exception\<close>: log, and return an empty DataFrame instead of raising.\<close>

definition fetch_stock_price :: "world \<Rightarrow> pyval \<Rightarrow> dataframe run" where
  "fetch_stock_price w stock_name =
     (case fetch_stock_price_try w stock_name of
        (tr, Inl e) \<Rightarrow> (tr, Inr DataFrame_empty)
      | (tr, Inr df) \<Rightarrow> (tr, Inr df))"

text \<open>This \<^verbatim>\<open>s3_upload\<close> has no test of \<^verbatim>\<open>data_frame.empty\<close> either.\<close>

definition stock_s3_upload :: "world \<Rightarrow> dataframe \<Rightarrow> unit run" where
  "stock_s3_upload w data_frame =
     then_run (emit UploadCalled) (\<lambda>_.
       upload_fileobj w ''nifty50-raw-layer''
         (s3_key ''stocks_data/history'' ''nifty50_stock_history_data.csv''
            (today w 0) (today w 1) (today w 2))
         (to_csv data_frame))"

text \<open>
  \<^verbatim>\<open>main_df.reset_index(inplace=True)\<close>: the index becomes the first column, under
  its name (\<^verbatim>\<open>index\<close> when it has none, \<^verbatim>\<open>level_0\<close> when that is taken), and the
  rows are renumbered; a column of that name already present is a ValueError.
\<close>

definition reset_index :: "dataframe \<Rightarrow> exn + dataframe" where
  "reset_index df =
     (let name = (case index_name df of
                    Some n \<Rightarrow> n
                  | None \<Rightarrow> if ''index'' \<in> set (columns df) then ''level_0'' else ''index'')
      in if name \<in> set (columns df)
         then Inl (ValueError (''cannot insert '' @ name @ '', already exists''))
         else Inr \<lparr>index_name = None, columns = name # columns df,
                   rows = range_index (map (\<lambda>(l, cells). l # cells) (rows df))\<rparr>)"

text \<open>
  \<^verbatim>\<open>main_df.columns = pd.Series(main_df.columns).str.lower().str.replace(" ", "_", regex=True)\<close>:
  each label is lower-cased by \<^verbatim>\<open>str.lower\<close>; the pattern is one space, so every
  space of the lower-cased label is replaced.
\<close>

definition normalize_label :: "world \<Rightarrow> string \<Rightarrow> string" where
  "normalize_label w s = map (\<lambda>c. if c = CHR '' '' then CHR ''_'' else c) (str_lower w s)"

definition normalize_columns :: "world \<Rightarrow> dataframe \<Rightarrow> dataframe" where
  "normalize_columns w df = df\<lparr>columns := map (normalize_label w) (columns df)\<rparr>"

text \<open>\<^verbatim>\<open>for stock in nifty_50_symbols\<close>: the elements of a list, the keys of a dict,
  the code points of a string; anything else is not iterable.\<close>

fun py_iter :: "pyval \<Rightarrow> exn + pyval list" where
  "py_iter (PList xs) = Inr xs"
| "py_iter (PDict kvs) = Inr (map (\<lambda>(k, v). PStr k) kvs)"
| "py_iter (PStr s) = Inr (map PStr (code_points s))"
| "py_iter _ = Inl TypeError"

text \<open>
  The pool. Every symbol is submitted; \<^verbatim>\<open>as_completed\<close> yields the futures in the
  order in which they finish, which is the submission order sorted by finishing time.
  The fetches run concurrently; the trace lists their calls future by future in that
  order, and the interleaving of the calls of different futures is not modelled.
\<close>

definition as_completed :: "world \<Rightarrow> 'a list \<Rightarrow> 'a list" where
  "as_completed w futures =
     map (\<lambda>i. futures ! i) (sort_key (finish_time w) [0..<length futures])"

text \<open>The \<^verbatim>\<open>for future in as_completed(futures)\<close> loop, with \<open>main_df_list\<close> as
  accumulator; \<^verbatim>\<open>future.result()\<close> is the run of \<open>fetch_stock_price\<close>.\<close>

fun collect :: "dataframe run list \<Rightarrow> dataframe list \<Rightarrow> dataframe list run" where
  "collect [] main_df_list = ret main_df_list"
| "collect (future # rest) main_df_list =
     then_run future (\<lambda>result.
       collect rest (if \<not> df_empty result then main_df_list @ [result] else main_df_list))"

text \<open>Lines 79 to 81 and the iteration over the symbols.\<close>

definition stock_symbols :: "world \<Rightarrow> pyval list run" where
  "stock_symbols w =
     then_run (lift (stock_names_file w)) (\<lambda>nifty_50_stocks.
     then_run (lift (py_getitem nifty_50_stocks ''stock_names'')) (\<lambda>nifty_50_symbols.
       lift (py_iter nifty_50_symbols)))"

definition stock_lambda_handler :: "world \<Rightarrow> pyval run" where
  "stock_lambda_handler w =
     then_run (stock_symbols w) (\<lambda>stocks.
     then_run (collect (as_completed w (map (fetch_stock_price w) stocks)) []) (\<lambda>main_df_list.
       if main_df_list \<noteq> []
       then then_run (lift (pd_concat False main_df_list)) (\<lambda>main_df.
            then_run (lift (reset_index main_df)) (\<lambda>main_df.
            then_run (stock_s3_upload w (normalize_columns w main_df)) (\<lambda>_. ret PNone)))
       else ret (PDict [(''message'', PStr ''No data retrieved'')])))"

section \<open>Concrete worlds\<close>

text \<open>
  \<open>is_publish\<close> picks the events of a publish: an entry into an \<^verbatim>\<open>s3_upload\<close> or a
  storage write. \<open>fetched\<close> is the DataFrame a unit's \<open>fetch_stock_price\<close> returns.
\<close>

fun is_publish :: "event \<Rightarrow> bool" where
  "is_publish UploadCalled = True"
| "is_publish (PutObject bucket key body ctype) = True"
| "is_publish _ = False"

fun is_put :: "event \<Rightarrow> bool" where
  "is_put (PutObject bucket key body ctype) = True"
| "is_put _ = False"

definition fetched :: "world \<Rightarrow> pyval \<Rightarrow> dataframe" where
  "fetched w stock_name =
     (case snd (fetch_stock_price w stock_name) of Inr df \<Rightarrow> df | Inl e \<Rightarrow> DataFrame_empty)"

text \<open>
  A world for the concrete runs below: every environment variable is set, the HTTP API
  answers an empty JSON object, the ticker \<^verbatim>\<open>B.NS\<close> has two days of history and every
  other ticker fails, the process runs at UTC+05:30 on 2024-01-01 20:00 UTC, and the
  futures finish in the reverse of their submission order. All its names and labels are
  ASCII, where \<^verbatim>\<open>str.upper\<close> and \<^verbatim>\<open>str.lower\<close> are \<open>ascii_upper\<close> and
  \<open>ascii_lower\<close>.
\<close>

definition history_B :: dataframe where
  "history_B = \<lparr>index_name = Some ''Date'', columns = [''Open'', ''Stock Splits''],
                rows = [(PStr ''2023-12-28'', [PNum 1, PNum 0]), (PStr ''2023-12-29'', [PNum 2, PNum 0])]\<rparr>"

definition world0 :: world where
  "world0 =
     \<lparr>environ = (\<lambda>k. Some ''x''),
      http = (\<lambda>url. Inr (PDict [])),
      ticker_history = (\<lambda>t s e. if t = ''B.NS'' then Inr history_B else Inl (OtherError ''transport'')),
      ticker_info = (\<lambda>t. Inr (PDict [(''beta'', PNum 7)])),
      today = (\<lambda>k. \<lparr>local_date = \<lparr>year = 2024, month = 1, day = 2\<rparr>,
                     utc_date = \<lparr>year = 2024, month = 1, day = 1\<rparr>\<rparr>),
      s3_fault = None,
      frame_of = (\<lambda>x. Inl (ValueError ''DataFrame constructor not properly called!'')),
      json_loads = (\<lambda>s. Inr [(''gdp'', ''NY.GDP.MKTP.CD'')]),
      stock_names_file = Inr (PDict [(''stock_names'', PList [PStr ''a'', PStr ''b''])]),
      start_date = ''2014-01-04'',
      end_date = ''2024-01-02'',
      finish_time = (\<lambda>i. 5 - i),
      str_upper = ascii_upper,
      str_lower = ascii_lower\<rparr>"

text \<open>
  The calls to the data providers, and the timeout argument the source passes with
  each (\<open>None\<close> where the call has no such argument).
\<close>

fun is_fetch_call :: "event \<Rightarrow> bool" where
  "is_fetch_call (HttpGet url t) = True"
| "is_fetch_call (YfHistory ticker s e t) = True"
| "is_fetch_call (YfInfo ticker) = True"
| "is_fetch_call _ = False"

fun timeout_arg :: "event \<Rightarrow> nat option" where
  "timeout_arg (HttpGet url t) = t"
| "timeout_arg (YfHistory ticker s e t) = t"
| "timeout_arg _ = None"

text \<open>What the stock-history job publishes in \<open>world0\<close>: the two rows of \<^verbatim>\<open>B.NS\<close>.\<close>

definition world0_header :: "string list" where
  "world0_header =
     [''date'', ''open'', ''stock_splits'', ''stock_name'', ''market_cap'', ''beta'', ''pe_ratio'',
      ''dividend_yield'', ''roe'', ''roce'', ''debt_to_equity'', ''interest_coverage'',
      ''pledged_percentage'', ''book_value'', ''price_to_book'', ''price_to_earnings'',
      ''forward_pe'', ''enterprise_value'', ''ev_to_revenue'', ''ev_to_ebitda'']"

definition world0_body :: "pyval list list" where
  "world0_body =
     [[PStr ''2023-12-28'', PNum 1, PNum 0, PStr ''b'', PNone, PNum 7, PNone, PNone, PNone, PNone,
       PNone, PNone, PNone, PNone, PNone, PNone, PNone, PNone, PNone, PNone],
      [PStr ''2023-12-29'', PNum 2, PNum 0, PStr ''b'', PNone, PNum 7, PNone, PNone, PNone, PNone,
       PNone, PNone, PNone, PNone, PNone, PNone, PNone, PNone, PNone, PNone]]"

definition world0_key :: string where
  "world0_key = ''stocks_data/history/year=2024/month=01/day=02/nifty50_stock_history_data.csv''"

text \<open>The header of a storage write, and a world whose two tickers name the same
  column in different case.\<close>

fun put_header :: "event \<Rightarrow> string list" where
  "put_header (PutObject bucket key body ctype) = fst body"
| "put_header _ = []"

definition world_mixed_case :: world where
  "world_mixed_case =
     world0\<lparr>ticker_history :=
              (\<lambda>t s e. if t = ''A.NS''
                        then Inr \<lparr>index_name = Some ''Date'', columns = [''Open''],
                                  rows = [(PStr ''2023-12-28'', [PNum 1])]\<rparr>
                        else Inr \<lparr>index_name = Some ''Date'', columns = [''open''],
                                  rows = [(PStr ''2023-12-28'', [PNum 2])]\<rparr>)\<rparr>"

text \<open>The request the macro job makes for one indicator \<open>p = (name, id)\<close>.\<close>

definition get_url :: "string \<Rightarrow> string \<Rightarrow> string \<times> string \<Rightarrow> event" where
  "get_url b c p = HttpGet (b @ snd p @ ''/'' @ c) (Some 10)"

text \<open>
  The Partition Key Builder as the specification words it (section 4.4):
  \<^verbatim>\<open>build(prefix, filename, now) = prefix + "/year=" + YYYY + "/month=" + MM + "/day=" + DD + "/" + filename\<close>.
  It is compared below with the key the three \<^verbatim>\<open>s3_upload\<close> functions compute.
\<close>

definition build :: "string \<Rightarrow> string \<Rightarrow> date \<Rightarrow> string" where
  "build prefix filename now =
     prefix @ ''/year='' @ strftime_Y now @ ''/month='' @ strftime_m now
            @ ''/day='' @ strftime_d now @ ''/'' @ filename"

text \<open>The non-empty results of a batch of the stock-history job, in completion order.\<close>

definition stock_frames :: "world \<Rightarrow> pyval list \<Rightarrow> dataframe list" where
  "stock_frames w stocks = filter (\<lambda>df. \<not> df_empty df) (map (fetched w) (as_completed w stocks))"

text \<open>The calls the pool makes for a batch, and the frame \<^verbatim>\<open>pd.concat\<close> builds from
  a non-empty list of frames.\<close>

definition pool_trace :: "world \<Rightarrow> pyval list \<Rightarrow> event list" where
  "pool_trace w stocks = concat (map (\<lambda>u. fst (fetch_stock_price w u)) (as_completed w stocks))"

definition merged :: "dataframe list \<Rightarrow> dataframe" where
  "merged dfs =
     \<lparr>index_name = common_name dfs,
      columns = first_seen (concat (map columns dfs)),
      rows = concat (map (reproject (first_seen (concat (map columns dfs)))) dfs)\<rparr>"

text \<open>
  The rows a unit contributes to the published body of a batch: the rows of its own
  fetch result, each with its index label in front and its cells laid out on the
  columns of the merged frame; nothing when the result is empty.
\<close>

definition contribution :: "world \<Rightarrow> pyval list \<Rightarrow> pyval \<Rightarrow> pyval list list" where
  "contribution w stocks u =
     (if df_empty (fetched w u) then []
      else map (\<lambda>(l, cells). l # cells)
             (reproject (columns (merged (stock_frames w stocks))) (fetched w u)))"

text \<open>
  Further worlds: one whose second indicator fails after the first has succeeded, one
  whose clock passes midnight of 2024-12-31 between the second and the third reading,
  one whose configuration names no indicator, one whose API returns an observation
  with the key \<^verbatim>\<open>Real Time\<close>, one whose API returns an indicator without any
  yearly value, and one where no ticker has data.
\<close>

definition gdp_response :: pyval where
  "gdp_response = PDict [(''values'', PDict [(''G'', PDict [(''x'', PDict [(''2020'', PNum 1), (''2021'', PNum 2)])])])]"

definition world_strict :: world where
  "world_strict =
     world0\<lparr>json_loads := (\<lambda>s. Inr [(''gdp'', ''G''), (''cpi'', ''C'')]),
            http := (\<lambda>url. if url = ''xG/x'' then Inr gdp_response else Inl RequestException)\<rparr>"

definition world_midnight :: world where
  "world_midnight =
     world0\<lparr>today := (\<lambda>k. if k < 2
                          then \<lparr>local_date = \<lparr>year = 2024, month = 12, day = 31\<rparr>,
                                utc_date = \<lparr>year = 2024, month = 12, day = 31\<rparr>\<rparr>
                          else \<lparr>local_date = \<lparr>year = 2025, month = 1, day = 1\<rparr>,
                                utc_date = \<lparr>year = 2025, month = 1, day = 1\<rparr>\<rparr>)\<rparr>"


definition world_real_time :: world where
  "world_real_time =
     world0\<lparr>http := (\<lambda>url. Inr (PDict [(''observations'', PList [PDict [(''Real Time'', PNum 1)]])]))\<rparr>"

definition world_empty_values :: world where
  "world_empty_values =
     world0\<lparr>json_loads := (\<lambda>s. Inr [(''gdp'', ''G'')]),
            http := (\<lambda>url. Inr (PDict [(''values'', PDict [(''G'', PDict [(''x'', PDict [])])])]))\<rparr>"


section \<open>Runs: basic facts\<close>

lemma fst_then_run:
  "fst (then_run m f) = fst m @ (case snd m of Inl e \<Rightarrow> [] | Inr x \<Rightarrow> fst (f x))"
  by (cases m) (auto simp: then_run_def split: sum.splits prod.splits)

lemma snd_then_run:
  "snd (then_run m f) = (case snd m of Inl e \<Rightarrow> Inl e | Inr x \<Rightarrow> snd (f x))"
  by (cases m) (auto simp: then_run_def split: sum.splits prod.splits)

lemma then_run_ret [simp]: "then_run (ret x) f = f x"
  by (simp add: then_run_def ret_def split: prod.splits)

lemma then_run_raise [simp]: "then_run (raise e) f = raise e"
  by (simp add: then_run_def raise_def)

lemma then_run_lift_Inr [simp]: "then_run (lift (Inr x)) f = f x"
  by (simp add: then_run_def lift_def split: prod.splits)

lemma then_run_lift_Inl [simp]: "then_run (lift (Inl e)) f = raise e"
  by (simp add: then_run_def lift_def raise_def)

lemma then_run_emit [simp]: "then_run (emit ev) f = (ev # fst (f ()), snd (f ()))"
  by (simp add: then_run_def emit_def split: prod.splits)

lemma fst_ret [simp]: "fst (ret x) = []"
  by (simp add: ret_def)

lemma snd_ret [simp]: "snd (ret x) = Inr x"
  by (simp add: ret_def)

lemma fst_raise [simp]: "fst (raise e) = []"
  by (simp add: raise_def)

lemma snd_raise [simp]: "snd (raise e) = Inl e"
  by (simp add: raise_def)

lemma fst_lift [simp]: "fst (lift r) = []"
  by (simp add: lift_def)

lemma snd_lift [simp]: "snd (lift r) = r"
  by (simp add: lift_def)

lemma fst_emit [simp]: "fst (emit ev) = [ev]"
  by (simp add: emit_def)

lemma snd_emit [simp]: "snd (emit ev) = Inr ()"
  by (simp add: emit_def)

section \<open>\<open>fetch_stock_price\<close> never raises\<close>

lemma snd_fetch_stock_price:
  "snd (fetch_stock_price w s) =
     (case snd (fetch_stock_price_try w s) of Inl e \<Rightarrow> Inr DataFrame_empty | Inr df \<Rightarrow> Inr df)"
  by (cases "fetch_stock_price_try w s") (auto simp: fetch_stock_price_def split: sum.splits)

lemma fst_fetch_stock_price: "fst (fetch_stock_price w s) = fst (fetch_stock_price_try w s)"
  by (cases "fetch_stock_price_try w s") (auto simp: fetch_stock_price_def split: sum.splits)

lemma fetch_stock_price_returns: "snd (fetch_stock_price w s) = Inr (fetched w s)"
  by (simp add: fetched_def snd_fetch_stock_price split: sum.splits)

text \<open>
  C10. For every world and every stock name, \<open>fetch_stock_price\<close> returns a DataFrame
  and raises nothing. Whenever its \<^verbatim>\<open>try\<close> block raises, in particular when the
  history call or the info read raises, the result is the empty DataFrame; a falsy
  info (\<open>None\<close> or an empty dict) gives the empty DataFrame as well; an empty history
  gives an empty result.
\<close>

theorem fetch_stock_price_total:
  "(\<exists>df. snd (fetch_stock_price w stock_name) = Inr df) \<and>
   (\<forall>e. snd (fetch_stock_price_try w stock_name) = Inl e \<longrightarrow>
        snd (fetch_stock_price w stock_name) = Inr DataFrame_empty) \<and>
   (\<forall>name e. stock_name = PStr name \<longrightarrow>
        ticker_history w (str_upper w name @ ''.NS'') (start_date w) (end_date w) = Inl e \<longrightarrow>
        snd (fetch_stock_price w stock_name) = Inr DataFrame_empty) \<and>
   (\<forall>name data e. stock_name = PStr name \<longrightarrow>
        ticker_history w (str_upper w name @ ''.NS'') (start_date w) (end_date w) = Inr data \<longrightarrow>
        ticker_info w (str_upper w name @ ''.NS'') = Inl e \<longrightarrow>
        snd (fetch_stock_price w stock_name) = Inr DataFrame_empty) \<and>
   (\<forall>name data info. stock_name = PStr name \<longrightarrow>
        ticker_history w (str_upper w name @ ''.NS'') (start_date w) (end_date w) = Inr data \<longrightarrow>
        ticker_info w (str_upper w name @ ''.NS'') = Inr info \<longrightarrow> \<not> truthy info \<longrightarrow>
        snd (fetch_stock_price w stock_name) = Inr DataFrame_empty) \<and>
   (\<forall>name data info df. stock_name = PStr name \<longrightarrow>
        ticker_history w (str_upper w name @ ''.NS'') (start_date w) (end_date w) = Inr data \<longrightarrow>
        df_empty data \<longrightarrow> ticker_info w (str_upper w name @ ''.NS'') = Inr info \<longrightarrow>
        snd (fetch_stock_price w stock_name) = Inr df \<longrightarrow> df_empty df)"
  apply (intro conjI allI impI)
  subgoal by (simp add: snd_fetch_stock_price split: sum.splits)
  subgoal by (simp add: snd_fetch_stock_price)
  subgoal by (simp add: snd_fetch_stock_price fetch_stock_price_try_def Let_def raise_def)
  subgoal by (simp add: snd_fetch_stock_price fetch_stock_price_try_def Let_def raise_def)
  subgoal by (simp add: snd_fetch_stock_price fetch_stock_price_try_def Let_def raise_def)
  subgoal by (auto simp add: snd_fetch_stock_price fetch_stock_price_try_def Let_def raise_def
        snd_then_run DataFrame_empty_def df_empty_def split: sum.splits if_splits)
  done

theorem fetch_stock_price_total_witness:
  "snd (fetch_stock_price world0 (PStr ''a'')) = Inr DataFrame_empty \<and>
   snd (fetch_stock_price (world0\<lparr>ticker_info := (\<lambda>t. Inl (OtherError ''info''))\<rparr>) (PStr ''b'')) = Inr DataFrame_empty \<and>
   snd (fetch_stock_price (world0\<lparr>ticker_info := (\<lambda>t. Inr PNone)\<rparr>) (PStr ''b'')) = Inr DataFrame_empty \<and>
   df_empty (fetched (world0\<lparr>ticker_history := (\<lambda>t s e. Inr DataFrame_empty)\<rparr>) (PStr ''b''))"
proof -
  let ?w1 = "world0\<lparr>ticker_info := (\<lambda>t. Inl (OtherError ''info''))\<rparr>"
  let ?w2 = "world0\<lparr>ticker_info := (\<lambda>t. Inr PNone)\<rparr>"
  let ?w3 = "world0\<lparr>ticker_history := (\<lambda>t s e. Inr DataFrame_empty)\<rparr>"
  have a: "ticker_history world0 (str_upper world0 ''a'' @ ''.NS'') (start_date world0) (end_date world0)
             = Inl (OtherError ''transport'')"
    by code_simp
  have b: "ticker_history ?w1 (str_upper ?w1 ''b'' @ ''.NS'') (start_date ?w1) (end_date ?w1) = Inr history_B"
      "ticker_info ?w1 (str_upper ?w1 ''b'' @ ''.NS'') = Inl (OtherError ''info'')"
    by code_simp+
  have c: "ticker_history ?w2 (str_upper ?w2 ''b'' @ ''.NS'') (start_date ?w2) (end_date ?w2) = Inr history_B"
      "ticker_info ?w2 (str_upper ?w2 ''b'' @ ''.NS'') = Inr PNone" "\<not> truthy PNone"
    by code_simp+
  have d: "ticker_history ?w3 (str_upper ?w3 ''b'' @ ''.NS'') (start_date ?w3) (end_date ?w3) = Inr DataFrame_empty"
      "ticker_info ?w3 (str_upper ?w3 ''b'' @ ''.NS'') = Inr (PDict [(''beta'', PNum 7)])"
      "df_empty DataFrame_empty"
    by code_simp+
  have "snd (fetch_stock_price world0 (PStr ''a'')) = Inr DataFrame_empty"
    using fetch_stock_price_total [of world0 "PStr ''a''"] a by simp
  moreover have "snd (fetch_stock_price ?w1 (PStr ''b'')) = Inr DataFrame_empty"
    using fetch_stock_price_total [of ?w1 "PStr ''b''"] b by simp
  moreover have "snd (fetch_stock_price ?w2 (PStr ''b'')) = Inr DataFrame_empty"
    using fetch_stock_price_total [of ?w2 "PStr ''b''"] c by simp
  moreover have "df_empty (fetched ?w3 (PStr ''b''))"
    using fetch_stock_price_total [of ?w3 "PStr ''b''"] d fetch_stock_price_returns [of ?w3 "PStr ''b''"] by simp
  ultimately show ?thesis by simp
qed

section \<open>Traces of the fetches, and the loop of the macro job\<close>

lemma list_all_then_run:
  "list_all P (fst m) \<Longrightarrow> (\<And>x. snd m = Inr x \<Longrightarrow> list_all P (fst (f x))) \<Longrightarrow>
   list_all P (fst (then_run m f))"
  by (simp add: fst_then_run split: sum.splits)

lemma then_run_pair_Inl [simp]: "then_run (tr, Inl e) f = (tr, Inl e)"
  by (simp add: then_run_def)

lemma then_run_pair_Inr [simp]: "then_run (tr, Inr x) f = (tr @ fst (f x), snd (f x))"
  by (simp add: then_run_def split: prod.splits)

lemma requests_get_eq: "requests_get w url = ([HttpGet url (Some 10)], http w url)"
  by (simp add: requests_get_def)

lemma fst_getenv [simp]: "fst (getenv w k) = []"
  by (simp add: getenv_def split: option.splits)

lemma fst_fed_fetch:
  "list_all (\<lambda>ev. \<exists>url. ev = HttpGet url (Some 10)) (fst (fed_fetch w))"
  unfolding fed_fetch_def
  by (intro list_all_then_run) (simp_all add: requests_get_eq)

lemma fst_fetch_indicator:
  "fst (fetch_indicator w b c n i) = [HttpGet (b @ i @ ''/'' @ c) (Some 10)]"
  by (simp add: fetch_indicator_def requests_get_eq fst_then_run split: sum.splits)

lemma fetch_indicator_eq:
  "fetch_indicator w b c n i = ([HttpGet (b @ i @ ''/'' @ c) (Some 10)], snd (fetch_indicator w b c n i))"
  by (rule prod_eqI) (simp_all add: fst_fetch_indicator)

lemma then_run_fetch_indicator:
  "then_run (fetch_indicator w b c n i) f =
     (case snd (fetch_indicator w b c n i) of
        Inl e \<Rightarrow> ([HttpGet (b @ i @ ''/'' @ c) (Some 10)], Inl e)
      | Inr df \<Rightarrow> (HttpGet (b @ i @ ''/'' @ c) (Some 10) # fst (f df), snd (f df)))"
  by (subst fetch_indicator_eq) (simp split: sum.splits)

lemma fst_macro_config [simp]: "fst (macro_config w) = []"
  by (simp add: macro_config_def fst_then_run split: sum.splits)

lemma macro_config_eq: "macro_config w = ([], snd (macro_config w))"
  by (rule prod_eqI) simp_all

lemma macro_config_nonempty:
  "snd (macro_config w) = Inr (c, b, inds) \<Longrightarrow> inds \<noteq> []"
  by (auto simp: macro_config_def snd_then_run split: sum.splits if_splits)

lemma fst_stock_symbols [simp]: "fst (stock_symbols w) = []"
  by (simp add: stock_symbols_def fst_then_run split: sum.splits)

lemma stock_symbols_eq: "stock_symbols w = ([], snd (stock_symbols w))"
  by (rule prod_eqI) simp_all

lemma fst_fetch_stock_price_try:
  "list_all (\<lambda>ev. \<not> is_publish ev \<and> (is_fetch_call ev \<longrightarrow> timeout_arg ev = None))
     (fst (fetch_stock_price_try w s))"
  by (cases s) (simp_all add: fetch_stock_price_try_def Let_def fst_then_run split: sum.splits)

text \<open>The loop of the macro job: all succeed, or the first failure ends it.\<close>

lemma fetch_indicators_fail:
  "(\<forall>p \<in> set pre. \<exists>df. snd (fetch_indicator w b c (fst p) (snd p)) = Inr df) \<Longrightarrow>
   snd (fetch_indicator w b c n i) = Inl e \<Longrightarrow>
   fetch_indicators w b c (pre @ (n, i) # post) acc = (map (get_url b c) (pre @ [(n, i)]), Inl e)"
proof (induction pre arbitrary: acc)
  case Nil
  then show ?case
    by (simp add: then_run_fetch_indicator get_url_def)
next
  case (Cons p pre)
  obtain n' i' where p: "p = (n', i')" by (cases p)
  from Cons.prems obtain df where df: "snd (fetch_indicator w b c n' i') = Inr df"
    by (auto simp: p)
  have rest: "fetch_indicators w b c (pre @ (n, i) # post) (acc @ [df]) = (map (get_url b c) (pre @ [(n, i)]), Inl e)"
    using Cons.IH Cons.prems by simp
  show ?case
    unfolding p by (simp add: then_run_fetch_indicator df rest get_url_def)
qed

lemma fetch_indicators_ok:
  "(\<forall>p \<in> set inds. \<exists>df. snd (fetch_indicator w b c (fst p) (snd p)) = Inr df) \<Longrightarrow>
   \<exists>dfs. fetch_indicators w b c inds acc = (map (get_url b c) inds, Inr (acc @ dfs)) \<and> length dfs = length inds"
proof (induction inds arbitrary: acc)
  case Nil
  then show ?case by (simp add: ret_def)
next
  case (Cons p inds)
  obtain n' i' where p: "p = (n', i')" by (cases p)
  from Cons.prems obtain df where df: "snd (fetch_indicator w b c n' i') = Inr df"
    by (auto simp: p)
  from Cons.IH [of "acc @ [df]"] Cons.prems obtain dfs where
    rest: "fetch_indicators w b c inds (acc @ [df]) = (map (get_url b c) inds, Inr (acc @ [df] @ dfs))"
      and len: "length dfs = length inds" by auto
  have "fetch_indicators w b c (p # inds) acc = (map (get_url b c) (p # inds), Inr (acc @ (df # dfs)))"
    unfolding p by (simp add: then_run_fetch_indicator df rest get_url_def)
  then show ?case using len by (intro exI [of _ "df # dfs"]) simp
qed


lemma macro_handler_config_error:
  "snd (macro_config w) = Inl e \<Longrightarrow> macro_lambda_handler w = ([], Inl e)"
  unfolding macro_lambda_handler_def by (subst macro_config_eq) simp

lemma macro_handler_fetch_error:
  "snd (macro_config w) = Inr (c, b, inds) \<Longrightarrow> fetch_indicators w b c inds [] = (tr, Inl e) \<Longrightarrow>
   macro_lambda_handler w = (tr, Inl e)"
  unfolding macro_lambda_handler_def by (subst macro_config_eq) simp




section \<open>The uploads\<close>

lemma upload_fileobj_eq:
  "upload_fileobj w bucket key body =
     ([PutObject bucket key body ''text/csv''], case s3_fault w of Some e \<Rightarrow> Inl e | None \<Rightarrow> Inr ())"
  by (simp add: upload_fileobj_def ret_def raise_def split: option.splits)

lemma fed_s3_upload_eq:
  "fed_s3_upload w df =
     (if df_empty df then ([UploadCalled, Warning ''No data to upload. DataFrame is empty.''], Inr ())
      else ([UploadCalled,
             PutObject ''nifty50-raw-layer''
               (s3_key ''us_fed_rates'' ''us_fed_rates.csv'' (today w 0) (today w 1) (today w 2))
               (to_csv df) ''text/csv''],
            case s3_fault w of Some e \<Rightarrow> Inl e | None \<Rightarrow> Inr ()))"
  by (simp add: fed_s3_upload_def upload_fileobj_eq)

lemma macro_s3_upload_eq:
  "macro_s3_upload w df =
     ([UploadCalled,
       PutObject ''nifty50-raw-layer''
         (s3_key ''macroeconimics'' ''macroeconomic_metrics.csv'' (today w 0) (today w 1) (today w 2))
         (to_csv df) ''text/csv''],
      case s3_fault w of Some e \<Rightarrow> Inl e | None \<Rightarrow> Inr ())"
  by (simp add: macro_s3_upload_def upload_fileobj_eq)

lemma stock_s3_upload_eq:
  "stock_s3_upload w df =
     ([UploadCalled,
       PutObject ''nifty50-raw-layer''
         (s3_key ''stocks_data/history'' ''nifty50_stock_history_data.csv''
            (today w 0) (today w 1) (today w 2))
         (to_csv df) ''text/csv''],
      case s3_fault w of Some e \<Rightarrow> Inl e | None \<Rightarrow> Inr ())"
  by (simp add: stock_s3_upload_def upload_fileobj_eq)

section \<open>The pool of the stock-history job\<close>

lemma fetch_stock_price_eq:
  "fetch_stock_price w u = (fst (fetch_stock_price w u), Inr (fetched w u))"
  by (rule prod_eqI) (simp_all add: fetch_stock_price_returns)

lemma then_run_Inr: "snd m = Inr x \<Longrightarrow> then_run m f = (fst m @ fst (f x), snd (f x))"
  by (cases m) simp

lemma then_run_Inl: "snd m = Inl e \<Longrightarrow> then_run m f = (fst m, Inl e)"
  by (cases m) simp

lemma collect_fetches:
  "collect (map (fetch_stock_price w) us) acc =
     (concat (map (\<lambda>u. fst (fetch_stock_price w u)) us),
      Inr (acc @ filter (\<lambda>df. \<not> df_empty df) (map (fetched w) us)))"
proof (induction us arbitrary: acc)
  case Nil
  then show ?case by (simp add: ret_def)
next
  case (Cons u us)
  show ?case
    by (simp add: then_run_Inr [OF fetch_stock_price_returns] Cons.IH)
qed

lemma set_sort_key_upt: "set (sort_key f [0..<n]) = {0..<n}"
  by simp

lemma as_completed_map: "as_completed w (map f xs) = map f (as_completed w xs)"
  by (simp add: as_completed_def)

lemma mset_as_completed: "mset (as_completed w xs) = mset xs"
proof -
  have "mset (as_completed w xs) = image_mset ((!) xs) (mset (sort_key (finish_time w) [0..<length xs]))"
    by (simp add: as_completed_def)
  also have "\<dots> = image_mset ((!) xs) (mset [0..<length xs])"
    by simp
  also have "\<dots> = mset (map ((!) xs) [0..<length xs])"
    by simp
  also have "\<dots> = mset xs"
    by (simp add: map_nth)
  finally show ?thesis .
qed

lemma set_as_completed: "set (as_completed w xs) = set xs"
  using mset_as_completed [of w xs] by (metis set_mset_mset)

lemma collect_pool:
  "collect (as_completed w (map (fetch_stock_price w) stocks)) [] =
     (concat (map (\<lambda>u. fst (fetch_stock_price w u)) (as_completed w stocks)),
      Inr (stock_frames w stocks))"
  by (simp add: as_completed_map collect_fetches stock_frames_def)


lemma collect_pool_trace:
  "collect (as_completed w (map (fetch_stock_price w) stocks)) [] =
     (pool_trace w stocks, Inr (stock_frames w stocks))"
  by (simp add: collect_pool pool_trace_def)

lemma pool_trace_quiet:
  "list_all (\<lambda>ev. \<not> is_publish ev \<and> (is_fetch_call ev \<longrightarrow> timeout_arg ev = None))
     (pool_trace w stocks)"
  using fst_fetch_stock_price_try
  by (auto simp add: pool_trace_def list_all_iff fst_fetch_stock_price)

lemma pd_concat_merged: "dfs \<noteq> [] \<Longrightarrow> pd_concat False dfs = Inr (merged dfs)"
  by (simp add: pd_concat_def merged_def Let_def)

lemma stock_handler_symbols_error:
  "snd (stock_symbols w) = Inl e \<Longrightarrow> stock_lambda_handler w = ([], Inl e)"
  unfolding stock_lambda_handler_def by (subst stock_symbols_eq) simp

lemma stock_handler_no_data:
  "snd (stock_symbols w) = Inr stocks \<Longrightarrow> stock_frames w stocks = [] \<Longrightarrow>
   stock_lambda_handler w = (pool_trace w stocks, Inr (PDict [(''message'', PStr ''No data retrieved'')]))"
  unfolding stock_lambda_handler_def
  by (subst stock_symbols_eq) (simp add: collect_pool_trace ret_def)

lemma stock_handler_reset_error:
  "snd (stock_symbols w) = Inr stocks \<Longrightarrow> stock_frames w stocks \<noteq> [] \<Longrightarrow>
   reset_index (merged (stock_frames w stocks)) = Inl e \<Longrightarrow>
   stock_lambda_handler w = (pool_trace w stocks, Inl e)"
  unfolding stock_lambda_handler_def
  by (subst stock_symbols_eq) (simp add: collect_pool_trace pd_concat_merged raise_def)

lemma stock_handler_publish:
  "snd (stock_symbols w) = Inr stocks \<Longrightarrow> stock_frames w stocks \<noteq> [] \<Longrightarrow>
   reset_index (merged (stock_frames w stocks)) = Inr df \<Longrightarrow>
   stock_lambda_handler w =
     (pool_trace w stocks @
        [UploadCalled,
         PutObject ''nifty50-raw-layer''
           (s3_key ''stocks_data/history'' ''nifty50_stock_history_data.csv''
              (today w 0) (today w 1) (today w 2))
           (to_csv (normalize_columns w df)) ''text/csv''],
      case s3_fault w of Some e \<Rightarrow> Inl e | None \<Rightarrow> Inr PNone)"
  unfolding stock_lambda_handler_def
  by (subst stock_symbols_eq)
     (simp add: collect_pool_trace pd_concat_merged stock_s3_upload_eq split: option.splits)

section \<open>Row contributions\<close>

lemma map_snd_range_index: "map snd (range_index xs) = xs"
  by (simp add: range_index_def)

lemma length_reproject: "length (reproject cols df) = length (rows df)"
  by (simp add: reproject_def)

lemma reset_index_rows:
  "reset_index df = Inr df' \<Longrightarrow> map snd (rows df') = map (\<lambda>(l, cells). l # cells) (rows df)"
  by (auto simp: reset_index_def Let_def map_snd_range_index split: if_splits)

lemma reset_index_columns:
  "reset_index df = Inr df' \<Longrightarrow> \<exists>name. columns df' = name # columns df"
  by (auto simp: reset_index_def Let_def split: if_splits)

lemma concat_map_filter_map:
  "concat (map g (filter P (map h xs))) = concat (map (\<lambda>x. if P (h x) then g (h x) else []) xs)"
  by (induction xs) simp_all

lemma sum_list_map_mset_cong:
  "mset xs = mset ys \<Longrightarrow> (\<Sum>x\<leftarrow>xs. (f x :: nat)) = (\<Sum>x\<leftarrow>ys. f x)"
proof -
  assume "mset xs = mset ys"
  then have "sum_mset (image_mset f (mset xs)) = sum_mset (image_mset f (mset ys))" by simp
  then show ?thesis by (simp add: sum_mset_sum_list flip: mset_map)
qed

lemma stock_handler_put:
  assumes sym: "snd (stock_symbols w) = Inr stocks"
    and put: "PutObject bucket key (header, body) ctype \<in> set (fst (stock_lambda_handler w))"
  shows "stock_frames w stocks \<noteq> [] \<and>
         (\<exists>df. reset_index (merged (stock_frames w stocks)) = Inr df \<and>
               (header, body) = to_csv (normalize_columns w df))"
proof (cases "stock_frames w stocks = []")
  case True
  from put pool_trace_quiet [of w stocks] show ?thesis
    unfolding stock_handler_no_data [OF sym True] by (auto simp: list_all_iff)
next
  case False
  show ?thesis
  proof (cases "reset_index (merged (stock_frames w stocks))")
    case (Inl e)
    from put pool_trace_quiet [of w stocks] show ?thesis
      unfolding stock_handler_reset_error [OF sym False Inl] by (auto simp: list_all_iff)
  next
    case (Inr df)
    from put pool_trace_quiet [of w stocks] have "(header, body) = to_csv (normalize_columns w df)"
      unfolding stock_handler_publish [OF sym False Inr] by (auto simp: list_all_iff)
    with False Inr show ?thesis by simp
  qed
qed


lemma merged_rows_contributions:
  "map (\<lambda>(l, cells). l # cells) (rows (merged (stock_frames w stocks))) =
     concat (map (contribution w stocks) (as_completed w stocks))"
proof -
  let ?cols = "columns (merged (stock_frames w stocks))"
  have "map (\<lambda>(l, cells). l # cells) (rows (merged (stock_frames w stocks))) =
          concat (map (\<lambda>df. map (\<lambda>(l, cells). l # cells) (reproject ?cols df)) (stock_frames w stocks))"
    by (simp add: merged_def map_concat comp_def)
  also have "\<dots> = concat (map (\<lambda>u. if \<not> df_empty (fetched w u)
                                     then map (\<lambda>(l, cells). l # cells) (reproject ?cols (fetched w u))
                                     else []) (as_completed w stocks))"
    unfolding stock_frames_def by (rule concat_map_filter_map)
  also have "\<dots> = concat (map (contribution w stocks) (as_completed w stocks))"
    by (rule arg_cong [where f = concat]) (simp add: contribution_def)
  finally show ?thesis .
qed

lemma length_contribution:
  "length (contribution w stocks u) = (if df_empty (fetched w u) then 0 else length (rows (fetched w u)))"
  by (simp add: contribution_def length_reproject)

text \<open>
  C3. In the stock-history job, when the symbols are read and the batch publishes a
  body, that body is the concatenation, in completion order, of the contributions of
  the units; the completion order is a permutation of the units; the contribution of
  a unit whose fetch result is not empty has exactly as many rows as that result,
  whatever the other units returned, and the contribution of a unit whose result is
  empty (a failed fetch included) has none; so the body has as many rows as the
  non-empty results together.
\<close>

theorem tolerant_row_contributions:
  assumes sym: "snd (stock_symbols w) = Inr stocks"
    and put: "PutObject bucket key (header, body) ctype \<in> set (fst (stock_lambda_handler w))"
  shows "body = concat (map (contribution w stocks) (as_completed w stocks)) \<and>
         mset (as_completed w stocks) = mset stocks \<and>
         (\<forall>u. length (contribution w stocks u) =
                (if df_empty (fetched w u) then 0 else length (rows (fetched w u)))) \<and>
         length body = (\<Sum>u\<leftarrow>stocks. if df_empty (fetched w u) then 0 else length (rows (fetched w u)))"
proof -
  from stock_handler_put [OF sym put] obtain df where
    reset: "reset_index (merged (stock_frames w stocks)) = Inr df"
    and csv: "(header, body) = to_csv (normalize_columns w df)"
    by blast
  from csv have "body = map snd (rows df)"
    by (simp add: to_csv_def normalize_columns_def)
  also have "\<dots> = map (\<lambda>(l, cells). l # cells) (rows (merged (stock_frames w stocks)))"
    by (rule reset_index_rows [OF reset])
  also have "\<dots> = concat (map (contribution w stocks) (as_completed w stocks))"
    by (rule merged_rows_contributions)
  finally have body: "body = concat (map (contribution w stocks) (as_completed w stocks))" .
  have perm: "mset (as_completed w stocks) = mset stocks"
    by (rule mset_as_completed)
  have "length body = (\<Sum>u\<leftarrow>as_completed w stocks. length (contribution w stocks u))"
    unfolding body by (simp add: length_concat comp_def)
  also have "\<dots> = (\<Sum>u\<leftarrow>stocks. length (contribution w stocks u))"
    by (rule sum_list_map_mset_cong [OF perm])
  also have "\<dots> = (\<Sum>u\<leftarrow>stocks. if df_empty (fetched w u) then 0 else length (rows (fetched w u)))"
    by (simp add: length_contribution)
  finally have total: "length body =
      (\<Sum>u\<leftarrow>stocks. if df_empty (fetched w u) then 0 else length (rows (fetched w u)))" .
  from body perm total show ?thesis
    by (simp add: length_contribution)
qed

lemma world0_symbols: "snd (stock_symbols world0) = Inr [PStr ''a'', PStr ''b'']"
  by code_simp

lemma world0_fetched_a: "fetched world0 (PStr ''a'') = DataFrame_empty"
  by code_simp

lemma world0_rows_b: "map fst (rows (fetched world0 (PStr ''b''))) = [PStr ''2023-12-28'', PStr ''2023-12-29'']"
  by code_simp

lemma world0_run:
  "stock_lambda_handler world0 =
     ([YfHistory ''B.NS'' ''2014-01-04'' ''2024-01-02'' None, YfInfo ''B.NS'',
       YfHistory ''A.NS'' ''2014-01-04'' ''2024-01-02'' None, UploadCalled,
       PutObject ''nifty50-raw-layer'' world0_key (world0_header, world0_body) ''text/csv''],
      Inr PNone)"
  by code_simp

theorem tolerant_row_contributions_witness:
  "world0_body = concat (map (contribution world0 [PStr ''a'', PStr ''b''])
                     (as_completed world0 [PStr ''a'', PStr ''b''])) \<and>
   length (contribution world0 [PStr ''a'', PStr ''b''] (PStr ''a'')) = 0 \<and>
   length (contribution world0 [PStr ''a'', PStr ''b''] (PStr ''b'')) = 2 \<and>
   length world0_body = 2"
proof -
  have put: "PutObject ''nifty50-raw-layer'' world0_key (world0_header, world0_body) ''text/csv''
               \<in> set (fst (stock_lambda_handler world0))"
    unfolding world0_run by simp
  have a: "df_empty (fetched world0 (PStr ''a''))"
    by code_simp
  have b: "\<not> df_empty (fetched world0 (PStr ''b''))" "length (rows (fetched world0 (PStr ''b''))) = 2"
    by code_simp+
  from tolerant_row_contributions [OF world0_symbols put] a b show ?thesis
    by simp
qed

section \<open>No success, no publish\<close>

lemma fed_fetch_quiet: "filter is_publish (fst (fed_fetch w)) = []"
  using fst_fed_fetch [of w] by (auto simp: filter_empty_conv list_all_iff)

lemma pool_trace_no_publish: "filter is_publish (pool_trace w stocks) = []"
  using pool_trace_quiet [of w stocks] by (auto simp: filter_empty_conv list_all_iff)

lemma fed_handler_no_data:
  assumes "\<forall>data obs. snd (fed_fetch w) = Inr data \<longrightarrow>
             dict_get data ''observations'' (PList []) = Inr obs \<longrightarrow> \<not> truthy obs"
  shows "filter is_publish (fst (fed_lambda_handler w)) = []"
proof (cases "snd (fed_fetch w)")
  case (Inl e)
  show ?thesis
    unfolding fed_lambda_handler_def then_run_Inl [OF Inl] by (simp add: fed_fetch_quiet)
next
  case (Inr data)
  show ?thesis
  proof (cases "dict_get data ''observations'' (PList [])")
    case (Inl e)
    show ?thesis
      unfolding fed_lambda_handler_def then_run_Inr [OF Inr] by (simp add: Inl fed_fetch_quiet)
  next
    case obs: (Inr obs)
    from assms Inr obs have "\<not> truthy obs" by blast
    then show ?thesis
      unfolding fed_lambda_handler_def then_run_Inr [OF Inr] by (simp add: obs fed_fetch_quiet)
  qed
qed

lemma macro_handler_all_fail:
  assumes "\<forall>c b inds. snd (macro_config w) = Inr (c, b, inds) \<longrightarrow>
             (\<forall>p \<in> set inds. \<exists>e. snd (fetch_indicator w b c (fst p) (snd p)) = Inl e)"
  shows "filter is_publish (fst (macro_lambda_handler w)) = []"
proof (cases "snd (macro_config w)")
  case (Inl e)
  then show ?thesis by (simp add: macro_handler_config_error)
next
  case (Inr cfg)
  obtain c b inds where cfg: "cfg = (c, b, inds)" by (cases cfg)
  from Inr cfg have conf: "snd (macro_config w) = Inr (c, b, inds)" by simp
  from macro_config_nonempty [OF conf] obtain p rest where inds: "inds = p # rest"
    by (cases inds) auto
  from assms conf inds obtain e where e: "snd (fetch_indicator w b c (fst p) (snd p)) = Inl e"
    by fastforce
  have "fetch_indicators w b c inds [] = (map (get_url b c) ([] @ [(fst p, snd p)]), Inl e)"
    unfolding inds using fetch_indicators_fail [of "[]" w b c "fst p" "snd p" e rest "[]"] e by simp
  from macro_handler_fetch_error [OF conf this] show ?thesis
    by (simp add: get_url_def)
qed

lemma stock_handler_all_empty:
  assumes "\<forall>stocks. snd (stock_symbols w) = Inr stocks \<longrightarrow> (\<forall>u \<in> set stocks. df_empty (fetched w u))"
  shows "filter is_publish (fst (stock_lambda_handler w)) = []"
proof (cases "snd (stock_symbols w)")
  case (Inl e)
  then show ?thesis by (simp add: stock_handler_symbols_error)
next
  case (Inr stocks)
  with assms have "\<forall>u \<in> set stocks. df_empty (fetched w u)" by blast
  then have "stock_frames w stocks = []"
    by (simp add: stock_frames_def filter_empty_conv set_as_completed)
  from stock_handler_no_data [OF Inr this] show ?thesis
    by (simp add: pool_trace_no_publish)
qed

text \<open>
  In each of the three jobs, when every fetch of the batch raises or, in the
  interest-rate and stock-history jobs, returns nothing usable, the trace of the handler
  holds no entry into \<^verbatim>\<open>s3_upload\<close> and no storage write.
\<close>

lemma no_publish_without_fetch:
  "((\<forall>data obs. snd (fed_fetch w) = Inr data \<longrightarrow>
        dict_get data ''observations'' (PList []) = Inr obs \<longrightarrow> \<not> truthy obs) \<longrightarrow>
     filter is_publish (fst (fed_lambda_handler w)) = []) \<and>
   ((\<forall>c b inds. snd (macro_config w) = Inr (c, b, inds) \<longrightarrow>
        (\<forall>p \<in> set inds. \<exists>e. snd (fetch_indicator w b c (fst p) (snd p)) = Inl e)) \<longrightarrow>
     filter is_publish (fst (macro_lambda_handler w)) = []) \<and>
   ((\<forall>stocks. snd (stock_symbols w) = Inr stocks \<longrightarrow> (\<forall>u \<in> set stocks. df_empty (fetched w u))) \<longrightarrow>
     filter is_publish (fst (stock_lambda_handler w)) = [])"
proof (intro conjI impI)
  assume "\<forall>data obs. snd (fed_fetch w) = Inr data \<longrightarrow>
            dict_get data ''observations'' (PList []) = Inr obs \<longrightarrow> \<not> truthy obs"
  then show "filter is_publish (fst (fed_lambda_handler w)) = []"
    by (rule fed_handler_no_data)
next
  assume "\<forall>c b inds. snd (macro_config w) = Inr (c, b, inds) \<longrightarrow>
            (\<forall>p \<in> set inds. \<exists>e. snd (fetch_indicator w b c (fst p) (snd p)) = Inl e)"
  then show "filter is_publish (fst (macro_lambda_handler w)) = []"
    by (rule macro_handler_all_fail)
next
  assume "\<forall>stocks. snd (stock_symbols w) = Inr stocks \<longrightarrow> (\<forall>u \<in> set stocks. df_empty (fetched w u))"
  then show "filter is_publish (fst (stock_lambda_handler w)) = []"
    by (rule stock_handler_all_empty)
qed

text \<open>
  C1. The property (no successful fetch result, no publish) fails in the
  macro-indicator job. In \<open>world_empty_values\<close> the response for the only indicator is
  well formed and holds no data point: the fetch gives a frame without rows, so the
  batch has no usable result. \<open>all_data\<close> is then a non-empty list of an empty frame,
  the test \<^verbatim>\<open>if all_data\<close> passes, and the handler enters \<^verbatim>\<open>s3_upload\<close> and
  writes a header without rows.
\<close>

theorem macro_publishes_without_data:
  "snd (fetch_indicator world_empty_values ''x'' ''x'' ''gdp'' ''G'') = Inr (indicator_frame ''gdp'' []) \<and>
   df_empty (indicator_frame ''gdp'' []) \<and>
   macro_lambda_handler world_empty_values =
     ([HttpGet ''xG/x'' (Some 10), UploadCalled,
       PutObject ''nifty50-raw-layer''
         ''macroeconimics/year=2024/month=01/day=02/macroeconomic_metrics.csv''
         ([''indicator_name'', ''year'', ''value''], []) ''text/csv''],
      Inr PNone)"
  by code_simp

theorem macro_publishes_without_data_witness:
  "filter is_publish (fst (macro_lambda_handler world_empty_values)) =
     [UploadCalled,
      PutObject ''nifty50-raw-layer''
        ''macroeconimics/year=2024/month=01/day=02/macroeconomic_metrics.csv''
        ([''indicator_name'', ''year'', ''value''], []) ''text/csv''] \<and>
   snd (macro_lambda_handler world_empty_values) = Inr PNone"
  using macro_publishes_without_data by simp

section \<open>The no-data outcome\<close>




lemma macro_returns_after_put:
  assumes "snd (macro_lambda_handler w) = Inr v"
  shows "filter is_put (fst (macro_lambda_handler w)) \<noteq> []"
proof (cases "snd (macro_config w)")
  case (Inl e)
  with assms show ?thesis by (simp add: macro_handler_config_error)
next
  case (Inr cfg)
  obtain c b inds where cfg: "cfg = (c, b, inds)" by (cases cfg)
  from Inr cfg have conf: "snd (macro_config w) = Inr (c, b, inds)" by simp
  have run: "macro_lambda_handler w =
    then_run (fetch_indicators w b c inds []) (\<lambda>all_data.
       if all_data \<noteq> []
       then then_run (lift (pd_concat True all_data)) (\<lambda>combined_df.
            then_run (macro_s3_upload w combined_df) (\<lambda>_. ret PNone))
       else then_run (emit (Warning ''No data fetched for any indicator'')) (\<lambda>_.
            raise (ValueError ''No data fetched for any indicator'')))"
    unfolding macro_lambda_handler_def by (subst macro_config_eq) (simp add: conf)
  show ?thesis
  proof (cases "snd (fetch_indicators w b c inds [])")
    case (Inl e)
    with assms show ?thesis unfolding run by (simp add: then_run_Inl)
  next
    case all: (Inr all_data)
    from assms show ?thesis
      unfolding run then_run_Inr [OF all]
      by (auto simp: pd_concat_def Let_def macro_s3_upload_eq fst_then_run snd_then_run
          split: if_splits option.splits)
  qed
qed





section \<open>The guard against an empty Dataset\<close>

lemma merged_rows_nonempty:
  assumes "dfs \<noteq> []" "\<forall>df \<in> set dfs. \<not> df_empty df"
  shows "rows (merged dfs) \<noteq> []"
proof -
  from assms(1) obtain df rest where dfs: "dfs = df # rest" by (cases dfs) auto
  with assms(2) have "rows df \<noteq> []" by (simp add: df_empty_def)
  then show ?thesis by (simp add: merged_def dfs reproject_def)
qed

lemma stock_frames_nonempty: "\<forall>df \<in> set (stock_frames w stocks). \<not> df_empty df"
  by (simp add: stock_frames_def)

lemma stock_put_nonempty:
  assumes put: "PutObject bucket key (header, body) ctype \<in> set (fst (stock_lambda_handler w))"
  shows "header \<noteq> [] \<and> body \<noteq> []"
proof (cases "snd (stock_symbols w)")
  case (Inl e)
  with put show ?thesis by (simp add: stock_handler_symbols_error)
next
  case (Inr stocks)
  from stock_handler_put [OF Inr put] obtain df where
    ne: "stock_frames w stocks \<noteq> []"
    and reset: "reset_index (merged (stock_frames w stocks)) = Inr df"
    and csv: "(header, body) = to_csv (normalize_columns w df)"
    by blast
  from reset_index_columns [OF reset] obtain name where
    "columns df = name # columns (merged (stock_frames w stocks))" ..
  with csv have h: "header \<noteq> []"
    by (simp add: to_csv_def normalize_columns_def)
  from csv have "body = map snd (rows df)"
    by (simp add: to_csv_def normalize_columns_def)
  also have "\<dots> = map (\<lambda>(l, cells). l # cells) (rows (merged (stock_frames w stocks)))"
    by (rule reset_index_rows [OF reset])
  finally have "body \<noteq> []"
    using merged_rows_nonempty [OF ne stock_frames_nonempty] by simp
  with h show ?thesis ..
qed

text \<open>
  C5, amended. The \<^verbatim>\<open>s3_upload\<close> of the interest-rate job, invoked with an empty
  DataFrame, logs the warning, writes nothing and returns normally. The
  \<^verbatim>\<open>s3_upload\<close> of the stock-history job has no such test; its handler invokes it
  only with a DataFrame that has a header and at least one row.
\<close>

theorem empty_dataset_guard:
  "(df_empty df \<longrightarrow>
      fed_s3_upload w df = ([UploadCalled, Warning ''No data to upload. DataFrame is empty.''], Inr ())) \<and>
   (\<forall>bucket key header body ctype.
      PutObject bucket key (header, body) ctype \<in> set (fst (stock_lambda_handler w)) \<longrightarrow>
      header \<noteq> [] \<and> body \<noteq> [])"
  using stock_put_nonempty [of _ _ _ _ _ w] by (simp add: fed_s3_upload_eq)

theorem empty_dataset_guard_witness:
  "fed_s3_upload world0 DataFrame_empty =
     ([UploadCalled, Warning ''No data to upload. DataFrame is empty.''], Inr ()) \<and>
   world0_header \<noteq> [] \<and> world0_body \<noteq> []"
proof -
  have e: "df_empty DataFrame_empty"
    by code_simp
  have put: "PutObject ''nifty50-raw-layer'' world0_key (world0_header, world0_body) ''text/csv''
               \<in> set (fst (stock_lambda_handler world0))"
    unfolding world0_run by simp
  from empty_dataset_guard [of DataFrame_empty world0] e put show ?thesis
    by blast
qed

theorem empty_dataset_guard_counterexample:
  "df_empty DataFrame_empty \<and>
   stock_s3_upload world0 DataFrame_empty =
     ([UploadCalled, PutObject ''nifty50-raw-layer'' world0_key ([], []) ''text/csv''], Inr ())"
  by code_simp

section \<open>The timeout argument\<close>

lemma list_all_mono: "list_all P xs \<Longrightarrow> (\<And>x. P x \<Longrightarrow> Q x) \<Longrightarrow> list_all Q xs"
  by (auto simp: list_all_iff)

lemma fed_fetch_timeouts:
  "list_all (\<lambda>ev. is_fetch_call ev \<longrightarrow> timeout_arg ev = Some 10) (fst (fed_fetch w))"
  by (rule list_all_mono [OF fst_fed_fetch]) auto

lemma fst_fetch_indicators:
  "list_all (\<lambda>ev. \<exists>url. ev = HttpGet url (Some 10)) (fst (fetch_indicators w b c inds acc))"
proof (induction inds arbitrary: acc)
  case Nil
  then show ?case by simp
next
  case (Cons p inds)
  obtain n i where p: "p = (n, i)" by (cases p)
  show ?case unfolding p fetch_indicators.simps
    by (intro list_all_then_run) (simp_all add: fst_fetch_indicator Cons.IH)
qed

lemma fetch_indicators_timeouts:
  "list_all (\<lambda>ev. is_fetch_call ev \<longrightarrow> timeout_arg ev = Some 10) (fst (fetch_indicators w b c inds acc))"
  by (rule list_all_mono [OF fst_fetch_indicators]) auto

lemma fed_handler_timeouts:
  "list_all (\<lambda>ev. is_fetch_call ev \<longrightarrow> timeout_arg ev = Some 10) (fst (fed_lambda_handler w))"
  unfolding fed_lambda_handler_def
  by (intro list_all_then_run fed_fetch_timeouts)
     (auto simp: fed_s3_upload_eq fst_then_run split: sum.splits)

lemma macro_handler_timeouts:
  "list_all (\<lambda>ev. is_fetch_call ev \<longrightarrow> timeout_arg ev = Some 10) (fst (macro_lambda_handler w))"
  unfolding macro_lambda_handler_def
  apply (rule list_all_then_run)
   apply simp
  apply (clarsimp split: prod.splits)
  apply (rule list_all_then_run)
   apply (rule fetch_indicators_timeouts)
  apply (auto simp: macro_s3_upload_eq fst_then_run split: sum.splits)
  done

lemma stock_handler_timeouts:
  "list_all (\<lambda>ev. is_fetch_call ev \<longrightarrow> timeout_arg ev = None) (fst (stock_lambda_handler w))"
proof -
  have pool: "list_all (\<lambda>ev. is_fetch_call ev \<longrightarrow> timeout_arg ev = None) (pool_trace w stocks)" for stocks
    by (rule list_all_mono [OF pool_trace_quiet]) auto
  show ?thesis
    unfolding stock_lambda_handler_def
    apply (rule list_all_then_run)
     apply simp
    apply (simp add: collect_pool_trace)
    apply (auto simp: pool stock_s3_upload_eq fst_then_run split: sum.splits)
    done
qed

text \<open>
  C7, amended. Every call the interest-rate job and the macro-indicator job make to
  their provider carries the timeout 10 (the literal \<^verbatim>\<open>timeout=10\<close> of
  \<^verbatim>\<open>requests.get\<close>). The calls of the stock-history job to yfinance carry no timeout
  argument.
\<close>

theorem fetch_timeouts:
  "list_all (\<lambda>ev. is_fetch_call ev \<longrightarrow> timeout_arg ev = Some 10) (fst (fed_lambda_handler w)) \<and>
   list_all (\<lambda>ev. is_fetch_call ev \<longrightarrow> timeout_arg ev = Some 10) (fst (macro_lambda_handler w)) \<and>
   list_all (\<lambda>ev. is_fetch_call ev \<longrightarrow> timeout_arg ev = None) (fst (stock_lambda_handler w))"
  by (intro conjI fed_handler_timeouts macro_handler_timeouts stock_handler_timeouts)


theorem fetch_timeouts_witness:
  "filter is_fetch_call (fst (fed_lambda_handler world0)) = [HttpGet ''x'' (Some 10)] \<and>
   list_all (\<lambda>ev. timeout_arg ev = Some 10) (filter is_fetch_call (fst (fed_lambda_handler world0))) \<and>
   filter is_fetch_call (fst (macro_lambda_handler world_strict)) =
     [HttpGet ''xG/x'' (Some 10), HttpGet ''xC/x'' (Some 10)] \<and>
   list_all (\<lambda>ev. timeout_arg ev = Some 10) (filter is_fetch_call (fst (macro_lambda_handler world_strict))) \<and>
   filter is_fetch_call (fst (stock_lambda_handler world0)) =
     [YfHistory ''B.NS'' ''2014-01-04'' ''2024-01-02'' None, YfInfo ''B.NS'',
      YfHistory ''A.NS'' ''2014-01-04'' ''2024-01-02'' None] \<and>
   list_all (\<lambda>ev. timeout_arg ev = None) (filter is_fetch_call (fst (stock_lambda_handler world0)))"
proof -
  have fed: "filter is_fetch_call (fst (fed_lambda_handler world0)) = [HttpGet ''x'' (Some 10)]"
    by code_simp
  have macro: "filter is_fetch_call (fst (macro_lambda_handler world_strict)) =
     [HttpGet ''xG/x'' (Some 10), HttpGet ''xC/x'' (Some 10)]"
    by code_simp
  have stock: "filter is_fetch_call (fst (stock_lambda_handler world0)) =
     [YfHistory ''B.NS'' ''2014-01-04'' ''2024-01-02'' None, YfInfo ''B.NS'',
      YfHistory ''A.NS'' ''2014-01-04'' ''2024-01-02'' None]"
    unfolding world0_run by simp
  from fetch_timeouts [of world0]
  have "list_all (\<lambda>ev. timeout_arg ev = Some 10) (filter is_fetch_call (fst (fed_lambda_handler world0)))"
    and "list_all (\<lambda>ev. timeout_arg ev = None) (filter is_fetch_call (fst (stock_lambda_handler world0)))"
    by (simp_all add: list_all_iff)
  moreover from fetch_timeouts [of world_strict]
  have "list_all (\<lambda>ev. timeout_arg ev = Some 10) (filter is_fetch_call (fst (macro_lambda_handler world_strict)))"
    by (simp add: list_all_iff)
  ultimately show ?thesis using fed macro stock by blast
qed

theorem fetch_timeouts_counterexample:
  "\<not> list_all (\<lambda>ev. is_fetch_call ev \<longrightarrow> timeout_arg ev = Some 10) (fst (stock_lambda_handler world0))"
  unfolding world0_run by simp

section \<open>Column labels\<close>

lemma lower_not_upper: "l \<in> set lower_letters \<Longrightarrow> l \<notin> set upper_letters"
  by (auto simp: lower_letters_def upper_letters_def)

lemma lower_table_not_upper:
  "(case map_of (zip upper_letters lower_letters) c of Some l \<Rightarrow> l | None \<Rightarrow> c) \<notin> set upper_letters"
proof (cases "map_of (zip upper_letters lower_letters) c")
  case None
  have "length upper_letters = length lower_letters"
    by (simp add: lower_letters_def upper_letters_def)
  from map_of_zip_is_None [OF this] None have "c \<notin> set upper_letters" by simp
  with None show ?thesis by simp
next
  case (Some l)
  then have "(c, l) \<in> set (zip upper_letters lower_letters)" by (rule map_of_SomeD)
  then have "l \<in> set lower_letters" by (rule set_zip_rightD)
  with Some show ?thesis by (simp add: lower_not_upper)
qed

lemma ascii_lower_not_upper: "ch \<in> set (ascii_lower s) \<Longrightarrow> ch \<notin> set upper_letters"
  using lower_table_not_upper by (auto simp: ascii_lower_def)

lemma underscore_not_upper: "CHR ''_'' \<notin> set upper_letters"
  by (simp add: upper_letters_def)

lemma normalize_label_no_space: "CHR '' '' \<notin> set (normalize_label w s)"
  by (auto simp: normalize_label_def)

lemma normalize_label_ascii:
  "str_lower w s = ascii_lower s \<Longrightarrow> ch \<in> set (normalize_label w s) \<Longrightarrow> ch \<notin> set upper_letters"
  using ascii_lower_not_upper [of _ s] underscore_not_upper
  by (auto simp: normalize_label_def split: if_splits)

lemma first_seen_step_known:
  "set ks \<subseteq> set acc \<Longrightarrow> foldl (\<lambda>acc k. if k \<in> set acc then acc else acc @ [k]) acc ks = acc"
  by (induction ks arbitrary: acc) simp_all

lemma first_seen_step_fresh:
  "distinct ks \<Longrightarrow> set ks \<inter> set acc = {} \<Longrightarrow>
   foldl (\<lambda>acc k. if k \<in> set acc then acc else acc @ [k]) acc ks = acc @ ks"
  by (induction ks arbitrary: acc) auto

lemma first_seen_same_columns:
  assumes "dfs \<noteq> []" "\<forall>df \<in> set dfs. columns df = cols" "distinct cols"
  shows "first_seen (concat (map columns dfs)) = cols"
proof -
  from assms(1) obtain df rest where dfs: "dfs = df # rest" by (cases dfs) auto
  with assms(2) have df: "columns df = cols" and rest: "set (concat (map columns rest)) \<subseteq> set cols"
    by auto
  have "first_seen (concat (map columns dfs)) =
          foldl (\<lambda>acc k. if k \<in> set acc then acc else acc @ [k])
            (foldl (\<lambda>acc k. if k \<in> set acc then acc else acc @ [k]) [] cols)
            (concat (map columns rest))"
    by (simp add: first_seen_def dfs df)
  also have "foldl (\<lambda>acc k. if k \<in> set acc then acc else acc @ [k]) [] cols = cols"
    using first_seen_step_fresh [OF assms(3), of "[]"] by simp
  also have "foldl (\<lambda>acc k. if k \<in> set acc then acc else acc @ [k]) cols (concat (map columns rest)) = cols"
    by (rule first_seen_step_known [OF rest])
  finally show ?thesis .
qed

lemma fetch_indicator_columns:
  "snd (fetch_indicator w b c n i) = Inr df \<Longrightarrow> columns df = [''indicator_name'', ''year'', ''value'']"
  by (auto simp: fetch_indicator_def requests_get_eq snd_then_run indicator_frame_def
      split: sum.splits if_splits)

lemma fetch_indicators_columns:
  "\<forall>df \<in> set acc. columns df = [''indicator_name'', ''year'', ''value''] \<Longrightarrow>
   snd (fetch_indicators w b c inds acc) = Inr all_data \<Longrightarrow>
   \<forall>df \<in> set all_data. columns df = [''indicator_name'', ''year'', ''value'']"
proof (induction inds arbitrary: acc)
  case Nil
  then show ?case by simp
next
  case (Cons p inds)
  obtain n i where p: "p = (n, i)" by (cases p)
  from Cons.prems(2) obtain df where
    df: "snd (fetch_indicator w b c n i) = Inr df"
    and rest: "snd (fetch_indicators w b c inds (acc @ [df])) = Inr all_data"
    by (auto simp: p snd_then_run split: sum.splits)
  from Cons.prems(1) fetch_indicator_columns [OF df]
  have "\<forall>d \<in> set (acc @ [df]). columns d = [''indicator_name'', ''year'', ''value'']" by simp
  from Cons.IH [OF this rest] show ?case .
qed

lemma pd_concat_True_csv: "dfs \<noteq> [] \<Longrightarrow> pd_concat True dfs = Inr df \<Longrightarrow> to_csv df = to_csv (merged dfs)"
  by (auto simp: pd_concat_def merged_def Let_def to_csv_def map_snd_range_index)

lemma macro_put_header:
  assumes put: "PutObject bucket key (header, body) ctype \<in> set (fst (macro_lambda_handler w))"
  shows "header = [''indicator_name'', ''year'', ''value'']"
proof (cases "snd (macro_config w)")
  case (Inl e)
  with put show ?thesis by (simp add: macro_handler_config_error)
next
  case (Inr cfg)
  obtain c b inds where cfg: "cfg = (c, b, inds)" by (cases cfg)
  from Inr cfg have conf: "snd (macro_config w) = Inr (c, b, inds)" by simp
  have run: "macro_lambda_handler w =
    then_run (fetch_indicators w b c inds []) (\<lambda>all_data.
       if all_data \<noteq> []
       then then_run (lift (pd_concat True all_data)) (\<lambda>combined_df.
            then_run (macro_s3_upload w combined_df) (\<lambda>_. ret PNone))
       else then_run (emit (Warning ''No data fetched for any indicator'')) (\<lambda>_.
            raise (ValueError ''No data fetched for any indicator'')))"
    unfolding macro_lambda_handler_def by (subst macro_config_eq) (simp add: conf)
  have gets: "PutObject bucket key (header, body) ctype \<notin> set (fst (fetch_indicators w b c inds []))"
    using fst_fetch_indicators [of w b c inds "[]"] by (auto simp: list_all_iff)
  show ?thesis
  proof (cases "snd (fetch_indicators w b c inds [])")
    case (Inl e)
    with put gets show ?thesis unfolding run by (simp add: then_run_Inl)
  next
    case all: (Inr all_data)
    have cols: "\<forall>df \<in> set all_data. columns df = [''indicator_name'', ''year'', ''value'']"
      by (rule fetch_indicators_columns [OF _ all]) simp
    show ?thesis
    proof (cases "all_data = []")
      case True
      with put gets show ?thesis unfolding run then_run_Inr [OF all] by simp
    next
      case False
      then obtain df where df: "pd_concat True all_data = Inr df"
        by (simp add: pd_concat_def Let_def)
      from put gets False have "(header, body) = to_csv df"
        unfolding run then_run_Inr [OF all]
        by (auto simp: df macro_s3_upload_eq fst_then_run split: sum.splits option.splits)
      also have "\<dots> = to_csv (merged all_data)"
        by (rule pd_concat_True_csv [OF False df])
      finally have "header = first_seen (concat (map columns all_data))"
        by (simp add: to_csv_def merged_def)
      also have "\<dots> = [''indicator_name'', ''year'', ''value'']"
        by (rule first_seen_same_columns [OF False cols]) simp
      finally show ?thesis .
    qed
  qed
qed

lemma stock_put_header:
  assumes sym: "snd (stock_symbols w) = Inr stocks"
    and put: "PutObject bucket key (header, body) ctype \<in> set (fst (stock_lambda_handler w))"
  shows "\<exists>name. header = map (normalize_label w) (name # columns (merged (stock_frames w stocks)))"
proof -
  from stock_handler_put [OF sym put] obtain df where
    reset: "reset_index (merged (stock_frames w stocks)) = Inr df"
    and csv: "(header, body) = to_csv (normalize_columns w df)"
    by blast
  from reset_index_columns [OF reset] obtain name where
    "columns df = name # columns (merged (stock_frames w stocks))" ..
  with csv show ?thesis
    by (auto simp: to_csv_def normalize_columns_def)
qed

lemma fed_put_header:
  assumes fetch: "snd (fed_fetch w) = Inr data"
    and obs: "dict_get data ''observations'' (PList []) = Inr (PList recs)"
    and dicts: "list_all is_dict recs"
    and put: "PutObject bucket key (header, body) ctype \<in> set (fst (fed_lambda_handler w))"
  shows "header = union_keys recs \<and> body = map (record_cells (union_keys recs)) recs"
proof -
  have gets: "PutObject bucket key (header, body) ctype \<notin> set (fst (fed_fetch w))"
    using fst_fed_fetch [of w] by (auto simp: list_all_iff)
  show ?thesis
  proof (cases "recs = []")
    case True
    with put gets show ?thesis
      unfolding fed_lambda_handler_def then_run_Inr [OF fetch] by (simp add: obs)
  next
    case False
    with dicts have frame: "DataFrame_of w (PList recs) =
        Inr \<lparr>index_name = None, columns = union_keys recs,
             rows = range_index (map (record_cells (union_keys recs)) recs)\<rparr>"
      by (simp add: DataFrame_of_def)
    from put gets False show ?thesis
      unfolding fed_lambda_handler_def then_run_Inr [OF fetch]
      by (auto simp: obs frame fed_s3_upload_eq fst_then_run to_csv_def map_snd_range_index
          split: if_splits option.splits)
  qed
qed

text \<open>
  C8, amended. In the stock-history job the header of every published Dataset is the
  list of the labels of the merged frame (the column made of the index first), each
  lower-cased by \<^verbatim>\<open>str.lower\<close> and with every space replaced by an underscore: the
  normalization is applied once, to the labels of the merged frame, after the
  concatenation of the per-unit results. No published label of that job holds a space,
  and a label that \<^verbatim>\<open>str.lower\<close> lower-cases as an ASCII string is published without
  upper-case ASCII letter. In the macro-indicator job the header is always
  \<^verbatim>\<open>indicator_name, year, value\<close>. The interest-rate job normalizes nothing: for
  observations that are a list of JSON objects, the header it publishes is the list of
  their keys, unchanged, in the order of their first appearance.
\<close>

theorem published_columns_normalized:
  "(\<forall>stocks bucket key header body ctype.
      snd (stock_symbols w) = Inr stocks \<longrightarrow>
      PutObject bucket key (header, body) ctype \<in> set (fst (stock_lambda_handler w)) \<longrightarrow>
      (\<exists>name. header = map (normalize_label w) (name # columns (merged (stock_frames w stocks)))) \<and>
      (\<forall>h \<in> set header. CHR '' '' \<notin> set h)) \<and>
   (\<forall>label ch. str_lower w label = ascii_lower label \<longrightarrow> ch \<in> set (normalize_label w label) \<longrightarrow>
      ch \<noteq> CHR '' '' \<and> ch \<notin> set upper_letters) \<and>
   (\<forall>bucket key header body ctype.
      PutObject bucket key (header, body) ctype \<in> set (fst (macro_lambda_handler w)) \<longrightarrow>
      header = [''indicator_name'', ''year'', ''value'']) \<and>
   (\<forall>data recs bucket key header body ctype.
      snd (fed_fetch w) = Inr data \<longrightarrow>
      dict_get data ''observations'' (PList []) = Inr (PList recs) \<longrightarrow> list_all is_dict recs \<longrightarrow>
      PutObject bucket key (header, body) ctype \<in> set (fst (fed_lambda_handler w)) \<longrightarrow>
      header = union_keys recs)"
proof (intro conjI allI impI ballI)
  fix stocks bucket key header body ctype
  assume sym: "snd (stock_symbols w) = Inr stocks"
    and put: "PutObject bucket key (header, body) ctype \<in> set (fst (stock_lambda_handler w))"
  from stock_put_header [OF sym put]
  show hdr: "\<exists>name. header = map (normalize_label w) (name # columns (merged (stock_frames w stocks)))" .
  fix h
  assume "h \<in> set header"
  with hdr obtain s where "h = normalize_label w s" by auto
  then show "CHR '' '' \<notin> set h" by (simp add: normalize_label_no_space)
next
  fix label ch
  assume low: "str_lower w label = ascii_lower label" and ch: "ch \<in> set (normalize_label w label)"
  from ch normalize_label_no_space [of w label] show "ch \<noteq> CHR '' ''" by auto
  from low ch show "ch \<notin> set upper_letters" by (rule normalize_label_ascii)
next
  fix bucket key header body ctype
  assume "PutObject bucket key (header, body) ctype \<in> set (fst (macro_lambda_handler w))"
  then show "header = [''indicator_name'', ''year'', ''value'']" by (rule macro_put_header)
next
  fix data recs bucket key header body ctype
  assume "snd (fed_fetch w) = Inr data"
    "dict_get data ''observations'' (PList []) = Inr (PList recs)" "list_all is_dict recs"
    "PutObject bucket key (header, body) ctype \<in> set (fst (fed_lambda_handler w))"
  from fed_put_header [OF this] show "header = union_keys recs" by simp
qed

lemma macro_ok_run:
  "macro_lambda_handler (world_strict\<lparr>json_loads := (\<lambda>s. Inr [(''gdp'', ''G'')])\<rparr>) =
     ([HttpGet ''xG/x'' (Some 10), UploadCalled,
       PutObject ''nifty50-raw-layer''
         ''macroeconimics/year=2024/month=01/day=02/macroeconomic_metrics.csv''
         ([''indicator_name'', ''year'', ''value''],
          [[PStr ''gdp'', PStr ''2020'', PNum 1], [PStr ''gdp'', PStr ''2021'', PNum 2]])
         ''text/csv''],
      Inr PNone)"
  by code_simp

lemma real_time_run:
  "fed_lambda_handler world_real_time =
     ([HttpGet ''x'' (Some 10), UploadCalled,
       PutObject ''nifty50-raw-layer'' ''us_fed_rates/year=2024/month=01/day=02/us_fed_rates.csv''
         ([''Real Time''], [[PNum 1]]) ''text/csv''],
      Inr PNone)"
  by code_simp

theorem published_columns_normalized_witness:
  "(\<exists>name. world0_header =
      map (normalize_label world0) (name # columns (merged (stock_frames world0 [PStr ''a'', PStr ''b''])))) \<and>
   list_all (\<lambda>h. CHR '' '' \<notin> set h) world0_header \<and>
   normalize_label world0 ''Stock Splits'' = ''stock_splits'' \<and>
   list_all (\<lambda>ch. ch \<noteq> CHR '' '' \<and> ch \<notin> set upper_letters) (normalize_label world0 ''Stock Splits'') \<and>
   put_header (fst (macro_lambda_handler (world_strict\<lparr>json_loads := (\<lambda>s. Inr [(''gdp'', ''G'')])\<rparr>)) ! 2) =
     [''indicator_name'', ''year'', ''value''] \<and>
   put_header (fst (fed_lambda_handler world_real_time) ! 2) =
     union_keys [PDict [(''Real Time'', PNum 1)]] \<and>
   union_keys [PDict [(''Real Time'', PNum 1)]] = [''Real Time'']"
proof -
  let ?ok = "world_strict\<lparr>json_loads := (\<lambda>s. Inr [(''gdp'', ''G'')])\<rparr>"
  note T = published_columns_normalized
  have put: "PutObject ''nifty50-raw-layer'' world0_key (world0_header, world0_body) ''text/csv''
               \<in> set (fst (stock_lambda_handler world0))"
    unfolding world0_run by simp
  have low: "str_lower world0 ''Stock Splits'' = ascii_lower ''Stock Splits''"
    by code_simp
  have lab: "normalize_label world0 ''Stock Splits'' = ''stock_splits''"
    by code_simp
  obtain hdr body where ev: "fst (macro_lambda_handler ?ok) ! 2 =
      PutObject ''nifty50-raw-layer'' ''macroeconimics/year=2024/month=01/day=02/macroeconomic_metrics.csv''
        (hdr, body) ''text/csv''"
    unfolding macro_ok_run by simp
  have "fst (macro_lambda_handler ?ok) ! 2 \<in> set (fst (macro_lambda_handler ?ok))"
    unfolding macro_ok_run by simp
  with ev have mput: "PutObject ''nifty50-raw-layer'' ''macroeconimics/year=2024/month=01/day=02/macroeconomic_metrics.csv''
        (hdr, body) ''text/csv'' \<in> set (fst (macro_lambda_handler ?ok))"
    by simp
  have fetch: "snd (fed_fetch world_real_time) =
      Inr (PDict [(''observations'', PList [PDict [(''Real Time'', PNum 1)]])])"
    by code_simp
  have obs: "dict_get (PDict [(''observations'', PList [PDict [(''Real Time'', PNum 1)]])])
      ''observations'' (PList []) = Inr (PList [PDict [(''Real Time'', PNum 1)]])"
    by code_simp
  have dicts: "list_all is_dict [PDict [(''Real Time'', PNum 1)]]"
    by simp
  obtain fhdr fbody where fev: "fst (fed_lambda_handler world_real_time) ! 2 =
      PutObject ''nifty50-raw-layer'' ''us_fed_rates/year=2024/month=01/day=02/us_fed_rates.csv''
        (fhdr, fbody) ''text/csv''"
    unfolding real_time_run by simp
  have "fst (fed_lambda_handler world_real_time) ! 2 \<in> set (fst (fed_lambda_handler world_real_time))"
    unfolding real_time_run by simp
  with fev have fput: "PutObject ''nifty50-raw-layer'' ''us_fed_rates/year=2024/month=01/day=02/us_fed_rates.csv''
        (fhdr, fbody) ''text/csv'' \<in> set (fst (fed_lambda_handler world_real_time))"
    by simp
  have keys: "union_keys [PDict [(''Real Time'', PNum 1)]] = [''Real Time'']"
    by code_simp
  from T [of world0, THEN conjunct1, rule_format, OF world0_symbols put]
  have s1: "\<exists>name. world0_header =
      map (normalize_label world0) (name # columns (merged (stock_frames world0 [PStr ''a'', PStr ''b''])))"
    and s2: "\<forall>h \<in> set world0_header. CHR '' '' \<notin> set h"
    by simp_all
  from T [of world0, THEN conjunct2, THEN conjunct1, rule_format, OF low]
  have s3: "list_all (\<lambda>ch. ch \<noteq> CHR '' '' \<and> ch \<notin> set upper_letters) (normalize_label world0 ''Stock Splits'')"
    by (simp add: list_all_iff)
  from T [of ?ok, THEN conjunct2, THEN conjunct2, THEN conjunct1, rule_format, OF mput]
  have s4: "hdr = [''indicator_name'', ''year'', ''value'']" .
  from T [of world_real_time, THEN conjunct2, THEN conjunct2, THEN conjunct2, rule_format,
      OF fetch obs dicts fput]
  have s5: "fhdr = union_keys [PDict [(''Real Time'', PNum 1)]]" .
  from s1 s2 s3 s4 s5 lab keys show ?thesis
    by (simp add: list_all_iff ev fev)
qed

theorem published_columns_normalized_counterexample:
  "fed_lambda_handler world_real_time =
     ([HttpGet ''x'' (Some 10), UploadCalled,
       PutObject ''nifty50-raw-layer'' ''us_fed_rates/year=2024/month=01/day=02/us_fed_rates.csv''
         ([''Real Time''], [[PNum 1]]) ''text/csv''],
      Inr PNone) \<and>
   normalize_label world_real_time ''Real Time'' = ''real_time'' \<and>
   map put_header (filter is_put (fst (stock_lambda_handler world_mixed_case))) =
     [[''date'', ''open'', ''stock_name'', ''market_cap'', ''beta'', ''pe_ratio'', ''dividend_yield'',
       ''roe'', ''roce'', ''debt_to_equity'', ''interest_coverage'', ''pledged_percentage'',
       ''book_value'', ''price_to_book'', ''price_to_earnings'', ''forward_pe'', ''enterprise_value'',
       ''ev_to_revenue'', ''ev_to_ebitda'', ''open'']] \<and>
   columns (merged (map (normalize_columns world_mixed_case)
                      (stock_frames world_mixed_case [PStr ''a'', PStr ''b'']))) =
     [''open'', ''stock_name'', ''market_cap'', ''beta'', ''pe_ratio'', ''dividend_yield'',
      ''roe'', ''roce'', ''debt_to_equity'', ''interest_coverage'', ''pledged_percentage'',
      ''book_value'', ''price_to_book'', ''price_to_earnings'', ''forward_pe'', ''enterprise_value'',
      ''ev_to_revenue'', ''ev_to_ebitda'']"
  by code_simp

section \<open>The partition key\<close>

lemma s3_key_same_date:
  "local_date r1 = d \<Longrightarrow> local_date r2 = d \<Longrightarrow> local_date r3 = d \<Longrightarrow>
   s3_key prefix filename r1 r2 r3 = build prefix filename d"
  by (simp add: s3_key_def build_def)

text \<open>
  C4, amended. When the three readings of \<^verbatim>\<open>datetime.today()\<close> that an upload makes
  fall on the same local calendar date \<open>d\<close>, the key is
  \<^verbatim>\<open>prefix/year=YYYY/month=MM/day=DD/filename\<close> for that date, with the prefix and the
  filename of the job: it is the specification's \<open>build\<close> applied to the job's prefix,
  the job's filename and the local date, so equal inputs give equal keys. Every storage
  write of the three \<^verbatim>\<open>s3_upload\<close> functions goes to that key.
\<close>

theorem partition_key_local_date:
  assumes "local_date (today w 0) = d" "local_date (today w 1) = d" "local_date (today w 2) = d"
  shows "s3_key prefix filename (today w 0) (today w 1) (today w 2) = build prefix filename d \<and>
         filter is_put (fst (fed_s3_upload w df)) =
           (if df_empty df then []
            else [PutObject ''nifty50-raw-layer'' (build ''us_fed_rates'' ''us_fed_rates.csv'' d)
                    (to_csv df) ''text/csv'']) \<and>
         filter is_put (fst (macro_s3_upload w df)) =
           [PutObject ''nifty50-raw-layer'' (build ''macroeconimics'' ''macroeconomic_metrics.csv'' d)
              (to_csv df) ''text/csv''] \<and>
         filter is_put (fst (stock_s3_upload w df)) =
           [PutObject ''nifty50-raw-layer''
              (build ''stocks_data/history'' ''nifty50_stock_history_data.csv'' d)
              (to_csv df) ''text/csv'']"
  using assms
  by (simp add: fed_s3_upload_eq macro_s3_upload_eq stock_s3_upload_eq s3_key_same_date)

theorem partition_key_local_date_witness:
  "s3_key ''us_fed_rates'' ''us_fed_rates.csv'' (today world0 0) (today world0 1) (today world0 2) =
     ''us_fed_rates/year=2024/month=01/day=02/us_fed_rates.csv'' \<and>
   filter is_put (fst (stock_s3_upload world0 history_B)) =
     [PutObject ''nifty50-raw-layer'' world0_key (to_csv history_B) ''text/csv'']"
proof -
  let ?d = "\<lparr>year = 2024, month = 1, day = 2\<rparr>"
  have r: "local_date (today world0 0) = ?d" "local_date (today world0 1) = ?d"
      "local_date (today world0 2) = ?d"
    by code_simp+
  have k: "build ''us_fed_rates'' ''us_fed_rates.csv'' ?d =
             ''us_fed_rates/year=2024/month=01/day=02/us_fed_rates.csv''"
      "build ''stocks_data/history'' ''nifty50_stock_history_data.csv'' ?d = world0_key"
    by code_simp+
  from partition_key_local_date [OF r, of "''us_fed_rates''" "''us_fed_rates.csv''" history_B] k
  show ?thesis by simp
qed

theorem partition_key_local_date_counterexample:
  "utc_date (today world0 0) = \<lparr>year = 2024, month = 1, day = 1\<rparr> \<and>
   filter is_put (fst (stock_s3_upload world0 history_B)) =
     [PutObject ''nifty50-raw-layer''
        ''stocks_data/history/year=2024/month=01/day=02/nifty50_stock_history_data.csv''
        (to_csv history_B) ''text/csv''] \<and>
   build ''stocks_data/history'' ''nifty50_stock_history_data.csv'' (utc_date (today world0 0)) =
     ''stocks_data/history/year=2024/month=01/day=01/nifty50_stock_history_data.csv'' \<and>
   local_date (today world_midnight 0) = \<lparr>year = 2024, month = 12, day = 31\<rparr> \<and>
   local_date (today world_midnight 2) = \<lparr>year = 2025, month = 1, day = 1\<rparr> \<and>
   filter is_put (fst (stock_s3_upload world_midnight history_B)) =
     [PutObject ''nifty50-raw-layer''
        ''stocks_data/history/year=2024/month=12/day=01/nifty50_stock_history_data.csv''
        (to_csv history_B) ''text/csv'']"
  by code_simp

end
